theory Spec2Isabelle
  imports Complex_Main "HOL-Library.Sublist" "HOL-Library.AList"
begin

section \<open>Python values, errors and shape/cost records\<close>

text \<open>
  The layers of \<^verbatim>\<open>lingvo/core/builder_layers.py\<close> are dynamically typed: an
  \<^verbatim>\<open>FProp\<close> receives a parameter tree \<^verbatim>\<open>theta\<close> and a variadic tuple of
  arguments, and returns either one bare value or a tuple. A raised exception is the
  left summand of the result; the constructors of \<open>error\<close> are the Python exception
  classes the code can raise.
\<close>

datatype error = AssertionError | IndexError | KeyError | TypeError | AttributeError | ValueError

text \<open>
  The universe of run-time values: \<^verbatim>\<open>None\<close>, a string, a tensor (or, inside
  \<^verbatim>\<open>FPropMeta\<close>, a \<^verbatim>\<open>tshape.Shape\<close>), a tuple, and a
  \<^verbatim>\<open>py_utils.NestedMap\<close> (a dict with insertion order and unique keys).
  Python lists are not part of the universe.
\<close>

datatype 'a val =
    NoneV
  | StrV string
  | Leaf 'a
  | TupleV "'a val list"
  | NMap "(string \<times> 'a val) list"

text \<open>The record \<^verbatim>\<open>NestedMap(flops=..., out_shapes=...)\<close> every \<^verbatim>\<open>FPropMeta\<close> returns.\<close>

record 'a meta =
  flops :: int
  out_shapes :: "'a val list"

text \<open>\<^verbatim>\<open>isinstance(x, tf.Tensor)\<close> (\<^verbatim>\<open>isinstance(x, tshape.Shape)\<close> for shapes).\<close>

fun is_Tensor :: "'a val \<Rightarrow> bool" where
  "is_Tensor (Leaf t) = True"
| "is_Tensor v = False"

text \<open>
  Python indexing \<^verbatim>\<open>xs[i]\<close> of a tuple: a negative index counts from the end, an
  index outside the tuple raises \<^verbatim>\<open>IndexError\<close>.
\<close>

definition py_index :: "'b list \<Rightarrow> int \<Rightarrow> error + 'b" where
  "py_index xs i =
     (if 0 \<le> i \<and> i < int (length xs) then Inr (xs ! nat i)
      else if i < 0 \<and> - int (length xs) \<le> i then Inr (xs ! nat (int (length xs) + i))
      else Inl IndexError)"

text \<open>\<^verbatim>\<open>_ToTuple(x)\<close>: \<^verbatim>\<open>x if isinstance(x, tuple) else (x,)\<close>.\<close>

fun ToTuple :: "'a val \<Rightarrow> 'a val list" where
  "ToTuple (TupleV xs) = xs"
| "ToTuple v = [v]"


section \<open>Selector layers\<close>

subsection \<open>\<^verbatim>\<open>FirstNLayer\<close>\<close>

record FirstN_params =
  fn_name :: string
  fn_n :: int

text \<open>\<^verbatim>\<open>__init__\<close>: \<^verbatim>\<open>assert p.name\<close>, \<^verbatim>\<open>assert p.n > 0\<close>.\<close>

definition FirstNLayer_init :: "FirstN_params \<Rightarrow> error + FirstN_params" where
  "FirstNLayer_init p =
     (if fn_name p = [] then Inl AssertionError
      else if \<not> 0 < fn_n p then Inl AssertionError
      else Inr p)"

text \<open>
  \<^verbatim>\<open>FProp\<close>: \<^verbatim>\<open>assert len(args) >= p.n\<close>, then
  \<^verbatim>\<open>tuple(args[:p.n]) if p.n > 1 else args[0]\<close>.
\<close>

definition FirstNLayer_FProp :: "FirstN_params \<Rightarrow> 'th \<Rightarrow> 'a val list \<Rightarrow> error + 'a val" where
  "FirstNLayer_FProp p theta args =
     (if \<not> fn_n p \<le> int (length args) then Inl AssertionError
      else if 1 < fn_n p then Inr (TupleV (take (nat (fn_n p)) args))
      else py_index args 0)"

text \<open>
  \<^verbatim>\<open>FPropMeta\<close>: \<^verbatim>\<open>py_utils.CheckShapes(args)\<close> (an assertion of
  \<^verbatim>\<open>py_utils\<close>, taken as the parameter \<open>CheckShapes\<close>), then the first \<open>n\<close>
  shapes, or the one-element tuple \<^verbatim>\<open>(args[0],)\<close>; the cost is 0.
\<close>

definition FirstNLayer_FPropMeta ::
  "('a val list \<Rightarrow> bool) \<Rightarrow> FirstN_params \<Rightarrow> 'a val list \<Rightarrow> error + 'a meta" where
  "FirstNLayer_FPropMeta CheckShapes p args =
     (if \<not> CheckShapes args then Inl AssertionError
      else if 1 < fn_n p then Inr \<lparr>flops = 0, out_shapes = take (nat (fn_n p)) args\<rparr>
      else (case py_index args 0 of
              Inl e \<Rightarrow> Inl e
            | Inr a \<Rightarrow> Inr \<lparr>flops = 0, out_shapes = [a]\<rparr>))"

subsection \<open>\<^verbatim>\<open>ArgIndexLayer\<close>\<close>

record ArgIndex_params =
  ai_name :: string
  ai_idx :: "int list"

text \<open>The loop \<^verbatim>\<open>for i in p.idx: assert 0 <= i <= len(args)\<close>.\<close>

definition ArgIndex_precondition :: "int list \<Rightarrow> 'b list \<Rightarrow> bool" where
  "ArgIndex_precondition idx args = list_all (\<lambda>i. 0 \<le> i \<and> i \<le> int (length args)) idx"

text \<open>The comprehension \<^verbatim>\<open>[args[i] for i in p.idx]\<close>, stopping at the first error.\<close>

fun select_args :: "'b list \<Rightarrow> int list \<Rightarrow> error + 'b list" where
  "select_args args [] = Inr []"
| "select_args args (i # rest) =
     (case py_index args i of
        Inl e \<Rightarrow> Inl e
      | Inr v \<Rightarrow> (case select_args args rest of
                   Inl e \<Rightarrow> Inl e
                 | Inr vs \<Rightarrow> Inr (v # vs)))"

definition ArgIndexLayer_FProp :: "ArgIndex_params \<Rightarrow> 'th \<Rightarrow> 'a val list \<Rightarrow> error + 'a val" where
  "ArgIndexLayer_FProp p theta args =
     (if ai_idx p = [] then Inl AssertionError
      else if \<not> ArgIndex_precondition (ai_idx p) args then Inl AssertionError
      else (case select_args args (ai_idx p) of
              Inl e \<Rightarrow> Inl e
            | Inr r \<Rightarrow> if 1 < length r then Inr (TupleV r) else py_index r 0))"


section \<open>Sequential composer: \<^verbatim>\<open>SequentialLayer.FPropMeta\<close>\<close>

text \<open>
  The configuration of a composer: its name, the configurations of its sub-layers
  (of an arbitrary type \<open>'b\<close>) and the repeat count. \<^verbatim>\<open>sub.cls.FPropMeta(sub, *args)\<close>
  dispatches on the class of the sub-layer; it is the parameter
  \<open>FPropMeta_of :: 'b \<Rightarrow> 's val list \<Rightarrow> error + 's meta\<close> of the models below.
\<close>

record 'b Sequential_params =
  sq_name :: string
  sq_sub :: "'b list"
  sq_repeat :: int

text \<open>
  The inner loop \<^verbatim>\<open>for sub in p.sub\<close> with its two loop variables \<^verbatim>\<open>total\<close> and
  \<^verbatim>\<open>args\<close>: call the sub-layer's \<^verbatim>\<open>FPropMeta\<close>, check its output shapes,
  add its flops, continue with its output shapes.
\<close>

fun Sequential_sub_loop ::
  "('s val list \<Rightarrow> bool) \<Rightarrow> ('b \<Rightarrow> 's val list \<Rightarrow> error + 's meta) \<Rightarrow> 'b list
     \<Rightarrow> int \<times> 's val list \<Rightarrow> error + int \<times> 's val list" where
  "Sequential_sub_loop CheckShapes FPropMeta_of [] (tot, args) = Inr (tot, args)"
| "Sequential_sub_loop CheckShapes FPropMeta_of (sub # rest) (tot, args) =
     (case FPropMeta_of sub args of
        Inl e \<Rightarrow> Inl e
      | Inr m \<Rightarrow>
          if \<not> CheckShapes (out_shapes m) then Inl AssertionError
          else Sequential_sub_loop CheckShapes FPropMeta_of rest (tot + flops m, out_shapes m))"

text \<open>The outer loop \<^verbatim>\<open>for _ in range(p.repeat)\<close>.\<close>

fun Sequential_repeat_loop ::
  "('s val list \<Rightarrow> bool) \<Rightarrow> ('b \<Rightarrow> 's val list \<Rightarrow> error + 's meta) \<Rightarrow> 'b list
     \<Rightarrow> nat \<Rightarrow> int \<times> 's val list \<Rightarrow> error + int \<times> 's val list" where
  "Sequential_repeat_loop CheckShapes FPropMeta_of subs 0 st = Inr st"
| "Sequential_repeat_loop CheckShapes FPropMeta_of subs (Suc k) st =
     (case Sequential_sub_loop CheckShapes FPropMeta_of subs st of
        Inl e \<Rightarrow> Inl e
      | Inr st' \<Rightarrow> Sequential_repeat_loop CheckShapes FPropMeta_of subs k st')"

text \<open>\<^verbatim>\<open>range(p.repeat)\<close> is empty for \<open>p.repeat \<le> 0\<close>: the loop runs \<open>nat p.repeat\<close> times.\<close>

definition SequentialLayer_FPropMeta ::
  "('s val list \<Rightarrow> bool) \<Rightarrow> ('b \<Rightarrow> 's val list \<Rightarrow> error + 's meta)
     \<Rightarrow> 'b Sequential_params \<Rightarrow> 's val list \<Rightarrow> error + 's meta" where
  "SequentialLayer_FPropMeta CheckShapes FPropMeta_of p args =
     (if \<not> CheckShapes args then Inl AssertionError
      else (case Sequential_repeat_loop CheckShapes FPropMeta_of (sq_sub p)
                   (nat (sq_repeat p)) (0, args) of
              Inl e \<Rightarrow> Inl e
            | Inr (tot, out) \<Rightarrow> Inr \<lparr>flops = tot, out_shapes = out\<rparr>))"

text \<open>
  The specification's reading, for comparison: thread the shape descriptors by hand
  through a chain of sub-modules in order, the output shapes of one being the input
  shapes of the next, and collect the record each sub-module reports.
\<close>

fun thread_shapes ::
  "('b \<Rightarrow> 's val list \<Rightarrow> error + 's meta) \<Rightarrow> 'b list \<Rightarrow> 's val list \<Rightarrow> error + 's meta list" where
  "thread_shapes FPropMeta_of [] shapes = Inr []"
| "thread_shapes FPropMeta_of (sub # rest) shapes =
     (case FPropMeta_of sub shapes of
        Inl e \<Rightarrow> Inl e
      | Inr m \<Rightarrow> (case thread_shapes FPropMeta_of rest (out_shapes m) of
                   Inl e \<Rightarrow> Inl e
                 | Inr ms \<Rightarrow> Inr (m # ms)))"

text \<open>The shapes that leave the chain: those of the last report, or the inputs of an empty chain.\<close>

definition threaded_output :: "'s val list \<Rightarrow> 's meta list \<Rightarrow> 's val list" where
  "threaded_output shapes ms = (if ms = [] then shapes else out_shapes (last ms))"


section \<open>Repeat composers: \<^verbatim>\<open>FPropMeta\<close>\<close>

record 'b Repeat_params =
  rp_name :: string
  rp_body :: 'b
  rp_repeat :: int

text \<open>
  \<^verbatim>\<open>RepeatLayer.FPropMeta\<close>: check the input shapes, ask the body once, check the
  body's output shapes, multiply the body's flops by \<^verbatim>\<open>p.repeat\<close>; the output shapes
  are the input shapes.
\<close>

definition RepeatLayer_FPropMeta ::
  "('s val list \<Rightarrow> bool) \<Rightarrow> ('b \<Rightarrow> 's val list \<Rightarrow> error + 's meta)
     \<Rightarrow> 'b Repeat_params \<Rightarrow> 's val list \<Rightarrow> error + 's meta" where
  "RepeatLayer_FPropMeta CheckShapes FPropMeta_of p args =
     (if \<not> CheckShapes args then Inl AssertionError
      else (case FPropMeta_of (rp_body p) args of
              Inl e \<Rightarrow> Inl e
            | Inr m \<Rightarrow>
                if \<not> CheckShapes (out_shapes m) then Inl AssertionError
                else Inr \<lparr>flops = flops m * rp_repeat p, out_shapes = args\<rparr>))"

text \<open>
  \<^verbatim>\<open>ParallelRepeatLayer.FPropMeta\<close> uses two operations of \<^verbatim>\<open>tshape.Shape\<close>, a class
  that is not part of the file; they are parameters:
  \<open>drop_leading s\<close> is \<^verbatim>\<open>tshape.Shape(arg.get_shape().as_list()[1:])\<close> and
  \<open>add_leading n s\<close> is \<^verbatim>\<open>tshape.Shape([n] + s[:])\<close>. Both may raise.
\<close>

record 's tshape_ops =
  drop_leading :: "'s \<Rightarrow> error + 's"
  add_leading :: "int \<Rightarrow> 's \<Rightarrow> error + 's"

text \<open>
  Attribute access \<^verbatim>\<open>x.attr\<close> on a value that is not a tensor or shape: a
  \<^verbatim>\<open>NestedMap\<close> returns its entry of that key, everything else has no such
  attribute.
\<close>

definition no_method :: "string \<Rightarrow> 'a val \<Rightarrow> error" where
  "no_method attr v =
     (case v of
        NMap kvs \<Rightarrow> (if attr \<in> set (map fst kvs) then TypeError else AttributeError)
      | _ \<Rightarrow> AttributeError)"

text \<open>
  \<^verbatim>\<open>[None if arg is None else tshape.Shape(arg.get_shape().as_list()[1:]) for arg in args]\<close>
\<close>

fun slice_shapes :: "'s tshape_ops \<Rightarrow> 's val list \<Rightarrow> error + 's val list" where
  "slice_shapes ops [] = Inr []"
| "slice_shapes ops (arg # rest) =
     (case (case arg of
              NoneV \<Rightarrow> Inr NoneV
            | Leaf s \<Rightarrow> (case drop_leading ops s of Inl e \<Rightarrow> Inl e | Inr s' \<Rightarrow> Inr (Leaf s'))
            | v \<Rightarrow> Inl (no_method ''get_shape'' v)) of
        Inl e \<Rightarrow> Inl e
      | Inr x \<Rightarrow> (case slice_shapes ops rest of
                   Inl e \<Rightarrow> Inl e
                 | Inr xs \<Rightarrow> Inr (x # xs)))"

text \<open>
  \<^verbatim>\<open>[None if s is None else tshape.Shape([p.repeat] + s[:]) for s in meta.out_shapes]\<close>;
  a value that is neither \<^verbatim>\<open>None\<close> nor a shape is sliced as Python slices it: a
  tuple and a string support \<^verbatim>\<open>s[:]\<close> but cannot be added to a list, a
  \<^verbatim>\<open>NestedMap\<close> cannot be indexed by a slice.
\<close>

fun stack_shapes :: "'s tshape_ops \<Rightarrow> int \<Rightarrow> 's val list \<Rightarrow> error + 's val list" where
  "stack_shapes ops n [] = Inr []"
| "stack_shapes ops n (s # rest) =
     (case (case s of
              NoneV \<Rightarrow> Inr NoneV
            | Leaf d \<Rightarrow> (case add_leading ops n d of Inl e \<Rightarrow> Inl e | Inr d' \<Rightarrow> Inr (Leaf d'))
            | v \<Rightarrow> Inl TypeError) of
        Inl e \<Rightarrow> Inl e
      | Inr x \<Rightarrow> (case stack_shapes ops n rest of
                   Inl e \<Rightarrow> Inl e
                 | Inr xs \<Rightarrow> Inr (x # xs)))"

definition ParallelRepeatLayer_FPropMeta ::
  "('s val list \<Rightarrow> bool) \<Rightarrow> 's tshape_ops \<Rightarrow> ('b \<Rightarrow> 's val list \<Rightarrow> error + 's meta)
     \<Rightarrow> 'b Repeat_params \<Rightarrow> 's val list \<Rightarrow> error + 's meta" where
  "ParallelRepeatLayer_FPropMeta CheckShapes ops FPropMeta_of p args =
     (if \<not> CheckShapes args then Inl AssertionError
      else (case slice_shapes ops args of
              Inl e \<Rightarrow> Inl e
            | Inr input_shapes \<Rightarrow>
                (case FPropMeta_of (rp_body p) input_shapes of
                   Inl e \<Rightarrow> Inl e
                 | Inr m \<Rightarrow>
                     if \<not> CheckShapes (out_shapes m) then Inl AssertionError
                     else (case stack_shapes ops (rp_repeat p) (out_shapes m) of
                             Inl e \<Rightarrow> Inl e
                           | Inr outs \<Rightarrow> Inr \<lparr>flops = flops m * rp_repeat p, out_shapes = outs\<rparr>))))"


section \<open>Tensors and parameter trees\<close>

text \<open>
  A tensor is a number or a stack of tensors along a new leading axis; the tensors of
  a TensorFlow graph are the rectangular ones. Static shapes are taken to be fully
  known, so \<^verbatim>\<open>t.set_shape(s)\<close> succeeds exactly when \<open>s\<close> is the shape of \<open>t\<close>.
\<close>

datatype tensor = Num real | Arr "tensor list"

fun shape_of :: "tensor \<Rightarrow> nat list" where
  "shape_of (Num x) = []"
| "shape_of (Arr ts) = length ts # (case ts of [] \<Rightarrow> [] | t # rest \<Rightarrow> shape_of t)"

text \<open>\<^verbatim>\<open>tf.stack(ts)\<close> and the slices \<^verbatim>\<open>t[0], t[1], ...\<close> along the leading axis.\<close>

definition tf_stack :: "tensor list \<Rightarrow> tensor" where
  "tf_stack ts = Arr ts"

fun unstack :: "tensor \<Rightarrow> error + tensor list" where
  "unstack (Arr ts) = Inr ts"
| "unstack (Num x) = Inl ValueError"

text \<open>All numbers of a tensor in row-major order.\<close>

fun flat :: "tensor \<Rightarrow> real list" where
  "flat (Num x) = [x]"
| "flat (Arr ts) = concat (map flat ts)"

text \<open>Multiplication by a number, and the sum of two tensors of one shape.\<close>

fun scale :: "real \<Rightarrow> tensor \<Rightarrow> tensor" where
  "scale c (Num x) = Num (c * x)"
| "scale c (Arr ts) = Arr (map (scale c) ts)"

fun add :: "tensor \<Rightarrow> tensor \<Rightarrow> error + tensor"
  and add_all :: "tensor list \<Rightarrow> tensor list \<Rightarrow> error + tensor list" where
  "add (Num x) (Num y) = Inr (Num (x + y))"
| "add (Arr xs) (Arr ys) = (case add_all xs ys of Inl e \<Rightarrow> Inl e | Inr zs \<Rightarrow> Inr (Arr zs))"
| "add (Num x) (Arr ys) = Inl ValueError"
| "add (Arr xs) (Num y) = Inl ValueError"
| "add_all [] [] = Inr []"
| "add_all (x # xs) (y # ys) =
     (case add x y of
        Inl e \<Rightarrow> Inl e
      | Inr z \<Rightarrow> (case add_all xs ys of Inl e \<Rightarrow> Inl e | Inr zs \<Rightarrow> Inr (z # zs)))"
| "add_all [] (y # ys) = Inl ValueError"
| "add_all (x # xs) [] = Inl ValueError"

text \<open>
  Modelled from the spec: \<^verbatim>\<open>NestedMap.FlattenItems\<close> and \<^verbatim>\<open>NestedMap.Pack\<close> of
  \<^verbatim>\<open>py_utils\<close> are not part of the file. The specification describes a parameter
  tree as ``a hierarchical mapping from path (dotted name) to parameter value, one
  leaf per variable''; it is represented by the list of its (dotted path, leaf)
  pairs, a leaf being a tensor or \<^verbatim>\<open>None\<close>. \<open>FlattenItems\<close> enumerates the pairs and
  \<open>Pack\<close> puts a list of new leaves under the same paths, in the same order.
\<close>

type_synonym ptree = "(string \<times> tensor option) list"

definition FlattenItems :: "ptree \<Rightarrow> (string \<times> tensor option) list" where
  "FlattenItems theta = theta"

definition Flatten :: "ptree \<Rightarrow> tensor option list" where
  "Flatten theta = map snd (FlattenItems theta)"

definition Pack :: "ptree \<Rightarrow> tensor option list \<Rightarrow> ptree" where
  "Pack theta values = zip (map fst (FlattenItems theta)) values"


section \<open>Leaf layers used as bodies and sub-layers\<close>

text \<open>
  \<^verbatim>\<open>PrintShapeLayer.FProp\<close> logs its arguments and returns them: \<^verbatim>\<open>args[0]\<close> for one
  argument, the tuple \<^verbatim>\<open>args\<close> otherwise. \<^verbatim>\<open>FPropMeta\<close> is the identity at cost 0.
\<close>

definition PrintShapeLayer_FProp :: "'th \<Rightarrow> 'a val list \<Rightarrow> error + 'a val" where
  "PrintShapeLayer_FProp theta args =
     (if length args = 1 then py_index args 0 else Inr (TupleV args))"

definition PrintShapeLayer_FPropMeta :: "('s val list \<Rightarrow> bool) \<Rightarrow> 's val list \<Rightarrow> error + 's meta" where
  "PrintShapeLayer_FPropMeta CheckShapes args =
     (if \<not> CheckShapes args then Inl AssertionError
      else Inr \<lparr>flops = 0, out_shapes = args\<rparr>)"

text \<open>
  \<^verbatim>\<open>BiasLayer.FProp(theta, inputs)\<close> returns \<^verbatim>\<open>inputs + theta.b\<close>, the inputs shaped
  \<open>[..., dims]\<close> and the bias \<open>[dims]\<close>: the bias is added to every innermost row.
\<close>

fun is_Num :: "tensor \<Rightarrow> bool" where
  "is_Num (Num x) = True"
| "is_Num (Arr ts) = False"

fun bias_add :: "tensor \<Rightarrow> tensor \<Rightarrow> error + tensor"
  and bias_add_rows :: "tensor list \<Rightarrow> tensor \<Rightarrow> error + tensor list" where
  "bias_add (Num x) b = Inl ValueError"
| "bias_add (Arr ts) b =
     (if list_all is_Num ts then add (Arr ts) b
      else (case bias_add_rows ts b of Inl e \<Rightarrow> Inl e | Inr rs \<Rightarrow> Inr (Arr rs)))"
| "bias_add_rows [] b = Inr []"
| "bias_add_rows (t # ts) b =
     (case bias_add t b of
        Inl e \<Rightarrow> Inl e
      | Inr r \<Rightarrow> (case bias_add_rows ts b of Inl e \<Rightarrow> Inl e | Inr rs \<Rightarrow> Inr (r # rs)))"

text \<open>
  \<^verbatim>\<open>theta.b\<close> is the leaf at path \<^verbatim>\<open>b\<close>; the layer takes exactly one input besides
  \<^verbatim>\<open>theta\<close>, and both operands of \<^verbatim>\<open>+\<close> have to be tensors.
\<close>

definition BiasLayer_FProp :: "ptree \<Rightarrow> tensor val list \<Rightarrow> error + tensor val" where
  "BiasLayer_FProp theta args =
     (case args of
        [inputs] \<Rightarrow>
          (case map_of theta ''b'' of
             None \<Rightarrow> Inl AttributeError
           | Some None \<Rightarrow> Inl TypeError
           | Some (Some b) \<Rightarrow>
               (case inputs of
                  Leaf x \<Rightarrow> (case bias_add x b of Inl e \<Rightarrow> Inl e | Inr y \<Rightarrow> Inr (Leaf y))
                | _ \<Rightarrow> Inl TypeError))
      | _ \<Rightarrow> Inl TypeError)"

text \<open>
  Shape descriptors of the examples are lists of dimensions. \<^verbatim>\<open>BiasLayer.FPropMeta\<close>
  and \<^verbatim>\<open>LinearLayer.FPropMeta\<close> take one shape \<^verbatim>\<open>inputs\<close>, assert that its last
  dimension is the configured one and report \<^verbatim>\<open>inputs.size\<close> flops, respectively
  \<^verbatim>\<open>inputs.size * p.output_dims * 2\<close> flops.
\<close>

definition shape_size :: "int list \<Rightarrow> int" where
  "shape_size dims = prod_list dims"

definition BiasLayer_FPropMeta ::
  "(int list val list \<Rightarrow> bool) \<Rightarrow> int \<Rightarrow> int list val list \<Rightarrow> error + int list meta" where
  "BiasLayer_FPropMeta CheckShapes dims args =
     (case args of
        [inputs] \<Rightarrow>
          if \<not> CheckShapes [inputs] then Inl AssertionError
          else (case inputs of
                  Leaf s \<Rightarrow>
                    (case py_index s (- 1) of
                       Inl e \<Rightarrow> Inl e
                     | Inr d \<Rightarrow> if d \<noteq> dims then Inl AssertionError
                               else Inr \<lparr>flops = shape_size s, out_shapes = [inputs]\<rparr>)
                | _ \<Rightarrow> Inl TypeError)
      | _ \<Rightarrow> Inl TypeError)"

definition LinearLayer_FPropMeta ::
  "(int list val list \<Rightarrow> bool) \<Rightarrow> int \<Rightarrow> int \<Rightarrow> int list val list \<Rightarrow> error + int list meta" where
  "LinearLayer_FPropMeta CheckShapes input_dims output_dims args =
     (case args of
        [inputs] \<Rightarrow>
          if \<not> CheckShapes [inputs] then Inl AssertionError
          else (case inputs of
                  Leaf s \<Rightarrow>
                    (case py_index s (- 1) of
                       Inl e \<Rightarrow> Inl e
                     | Inr d \<Rightarrow> if input_dims \<noteq> d then Inl AssertionError
                               else Inr \<lparr>flops = shape_size s * output_dims * 2,
                                        out_shapes = [Leaf (butlast s @ [output_dims])]\<rparr>)
                | _ \<Rightarrow> Inl TypeError)
      | _ \<Rightarrow> Inl TypeError)"

text \<open>
  The configurations of the leaf layers above, and the dispatch
  \<^verbatim>\<open>sub.cls.FPropMeta(sub, *args)\<close> on the class of a configuration.
\<close>

datatype layer_params =
    Bias_p string int
  | Linear_p string int int
  | PrintShape_p string
  | FirstN_p FirstN_params

fun layer_name :: "layer_params \<Rightarrow> string" where
  "layer_name (Bias_p n d) = n"
| "layer_name (Linear_p n i out) = n"
| "layer_name (PrintShape_p n) = n"
| "layer_name (FirstN_p p) = fn_name p"

fun cls_FPropMeta ::
  "(int list val list \<Rightarrow> bool) \<Rightarrow> layer_params \<Rightarrow> int list val list \<Rightarrow> error + int list meta" where
  "cls_FPropMeta CheckShapes (Bias_p n d) args = BiasLayer_FPropMeta CheckShapes d args"
| "cls_FPropMeta CheckShapes (Linear_p n i out) args = LinearLayer_FPropMeta CheckShapes i out args"
| "cls_FPropMeta CheckShapes (PrintShape_p n) args = PrintShapeLayer_FPropMeta CheckShapes args"
| "cls_FPropMeta CheckShapes (FirstN_p p) args = FirstNLayer_FPropMeta CheckShapes p args"

text \<open>
  Modelled from the spec: \<^verbatim>\<open>py_utils.CheckShapes\<close> is not part of the file. The
  theorems hold for every check; the examples use the one that accepts a tuple whose
  every element is a shape descriptor.
\<close>

definition CheckShapes_leaves :: "'s val list \<Rightarrow> bool" where
  "CheckShapes_leaves shapes = list_all is_Tensor shapes"

text \<open>
  Shape descriptors as lists of dimensions. A descriptor is not a tensor:
  \<^verbatim>\<open>get_shape\<close> is the method of a tensor (\<^verbatim>\<open>ParallelRepeatLayer._InferOutShapes\<close>
  applies the same expression to the tensors of \<^verbatim>\<open>FProp\<close>), while \<^verbatim>\<open>FPropMeta\<close>
  receives descriptors, as its \<^verbatim>\<open>CheckShapes\<close> asserts and as it slices them itself by
  \<^verbatim>\<open>s[:]\<close>. So \<^verbatim>\<open>arg.get_shape()\<close> raises \<^verbatim>\<open>AttributeError\<close> on a descriptor;
  \<^verbatim>\<open>[n] + s[:]\<close> puts the dimension \<open>n\<close> in front.
\<close>

definition Shape_ops :: "int list tshape_ops" where
  "Shape_ops = \<lparr>drop_leading = (\<lambda>s. Inl AttributeError), add_leading = (\<lambda>n s. Inr (n # s))\<rparr>"

section \<open>Batch-parallel composer: \<^verbatim>\<open>BatchParallelLayer.FProp\<close>\<close>

text \<open>
  The per-shard results collected in \<^verbatim>\<open>outs\<close>: \<^verbatim>\<open>list(ys)\<close> when the sub-layer
  returned a tuple, the single tensor \<^verbatim>\<open>ys\<close> otherwise.
\<close>

datatype 'a shard_out = Many "'a val list" | Single "'a val"

text \<open>
  The loop \<^verbatim>\<open>for i, xs in enumerate(inps)\<close>; \<^verbatim>\<open>theta.sub\<close> is read in every
  round. Device placement does not change values and is left out.
\<close>

fun shard_loop ::
  "('th \<Rightarrow> 'a val list \<Rightarrow> error + 'a val) \<Rightarrow> (string \<times> 'th) list \<Rightarrow> 'a val list list
     \<Rightarrow> error + 'a shard_out list" where
  "shard_loop sub_FProp theta [] = Inr []"
| "shard_loop sub_FProp theta (xs # rest) =
     (case map_of theta ''sub'' of
        None \<Rightarrow> Inl AttributeError
      | Some th \<Rightarrow>
          (case sub_FProp th xs of
             Inl e \<Rightarrow> Inl e
           | Inr ys \<Rightarrow>
               (case shard_loop sub_FProp theta rest of
                  Inl e \<Rightarrow> Inl e
                | Inr outs \<Rightarrow>
                    Inr ((case ys of TupleV ts \<Rightarrow> Many ts | y \<Rightarrow> Single y) # outs))))"

text \<open>
  \<^verbatim>\<open>FProp\<close>: all arguments must be tensors; with one device per split the sub-layer
  is called directly, otherwise the arguments are split, the sub-layer runs on every
  shard and the results are concatenated. \<open>num\<close> is
  \<^verbatim>\<open>cluster.num_devices_per_split\<close>; \<^verbatim>\<open>py_utils.SplitRecursively\<close> and
  \<^verbatim>\<open>py_utils.ConcatRecursively\<close> are parameters.
\<close>

definition BatchParallelLayer_FProp ::
  "int \<Rightarrow> ('a val list \<Rightarrow> int \<Rightarrow> error + 'a val list list)
     \<Rightarrow> ('a shard_out list \<Rightarrow> error + 'a shard_out)
     \<Rightarrow> ('th \<Rightarrow> 'a val list \<Rightarrow> error + 'a val) \<Rightarrow> (string \<times> 'th) list \<Rightarrow> 'a val list
     \<Rightarrow> error + 'a val" where
  "BatchParallelLayer_FProp num SplitRecursively ConcatRecursively sub_FProp theta args =
     (if \<not> list_all is_Tensor args then Inl AssertionError
      else if num = 1 then
        (case map_of theta ''sub'' of
           None \<Rightarrow> Inl AttributeError
         | Some th \<Rightarrow> sub_FProp th args)
      else (case SplitRecursively args num of
              Inl e \<Rightarrow> Inl e
            | Inr inps \<Rightarrow>
                (case shard_loop sub_FProp theta inps of
                   Inl e \<Rightarrow> Inl e
                 | Inr outs \<Rightarrow>
                     (case ConcatRecursively outs of
                        Inl e \<Rightarrow> Inl e
                      | Inr (Many ret) \<Rightarrow> Inr (TupleV ret)
                      | Inr (Single ret) \<Rightarrow> Inr ret))))"

text \<open>
  The direct call the composer is compared with:
  \<^verbatim>\<open>self.sub.FProp(theta.sub, *args)\<close>.
\<close>

definition direct_sub_call ::
  "('th \<Rightarrow> 'a val list \<Rightarrow> error + 'a val) \<Rightarrow> (string \<times> 'th) list \<Rightarrow> 'a val list \<Rightarrow> error + 'a val" where
  "direct_sub_call sub_FProp theta args =
     (case map_of theta ''sub'' of
        None \<Rightarrow> Inl AttributeError
      | Some th \<Rightarrow> sub_FProp th args)"

text \<open>
  Modelled from the spec: \<^verbatim>\<open>SplitRecursively\<close> and \<^verbatim>\<open>ConcatRecursively\<close> of
  \<^verbatim>\<open>py_utils\<close> are not part of the file. The specification says that every input
  tensor's leading dimension is split into \<open>k\<close> equal shards and the per-shard outputs
  are concatenated back along that dimension, in input order.
\<close>

definition split_leading :: "nat \<Rightarrow> tensor val \<Rightarrow> error + tensor val list" where
  "split_leading k v =
     (case v of
        Leaf (Arr ts) \<Rightarrow>
          if k = 0 \<or> length ts mod k \<noteq> 0 then Inl ValueError
          else Inr (map (\<lambda>i. Leaf (Arr (take (length ts div k) (drop (i * (length ts div k)) ts))))
                       [0..<k])
      | _ \<Rightarrow> Inl ValueError)"

fun split_each :: "nat \<Rightarrow> tensor val list \<Rightarrow> error + tensor val list list" where
  "split_each k [] = Inr []"
| "split_each k (v # vs) =
     (case split_leading k v of
        Inl e \<Rightarrow> Inl e
      | Inr ps \<Rightarrow> (case split_each k vs of Inl e \<Rightarrow> Inl e | Inr pss \<Rightarrow> Inr (ps # pss)))"

definition SplitRecursively_model :: "tensor val list \<Rightarrow> int \<Rightarrow> error + tensor val list list" where
  "SplitRecursively_model args num =
     (if num \<le> 0 then Inl ValueError
      else (case split_each (nat num) args of
              Inl e \<Rightarrow> Inl e
            | Inr pss \<Rightarrow> Inr (map (\<lambda>i. map (\<lambda>ps. ps ! i) pss) [0..<nat num])))"

fun concat_leading :: "tensor val list \<Rightarrow> error + tensor list" where
  "concat_leading [] = Inr []"
| "concat_leading (Leaf (Arr ts) # rest) =
     (case concat_leading rest of Inl e \<Rightarrow> Inl e | Inr us \<Rightarrow> Inr (ts @ us))"
| "concat_leading (v # rest) = Inl ValueError"

fun shard_column :: "nat \<Rightarrow> tensor shard_out list \<Rightarrow> error + tensor val list" where
  "shard_column i [] = Inr []"
| "shard_column i (Many ys # rest) =
     (if length ys \<le> i then Inl ValueError
      else (case shard_column i rest of Inl e \<Rightarrow> Inl e | Inr col \<Rightarrow> Inr (ys ! i # col)))"
| "shard_column i (Single y # rest) = Inl ValueError"

fun concat_columns :: "nat list \<Rightarrow> tensor shard_out list \<Rightarrow> error + tensor val list" where
  "concat_columns [] outs = Inr []"
| "concat_columns (i # rest) outs =
     (case shard_column i outs of
        Inl e \<Rightarrow> Inl e
      | Inr col \<Rightarrow>
          (case concat_leading col of
             Inl e \<Rightarrow> Inl e
           | Inr ts \<Rightarrow> (case concat_columns rest outs of
                         Inl e \<Rightarrow> Inl e
                       | Inr cs \<Rightarrow> Inr (Leaf (Arr ts) # cs))))"

fun singles :: "tensor shard_out list \<Rightarrow> error + tensor val list" where
  "singles [] = Inr []"
| "singles (Single y # rest) = (case singles rest of Inl e \<Rightarrow> Inl e | Inr ys \<Rightarrow> Inr (y # ys))"
| "singles (Many ys # rest) = Inl ValueError"

definition ConcatRecursively_model :: "tensor shard_out list \<Rightarrow> error + tensor shard_out" where
  "ConcatRecursively_model outs =
     (case outs of
        [] \<Rightarrow> Inl AssertionError
      | Single y # rest \<Rightarrow>
          (case singles outs of
             Inl e \<Rightarrow> Inl e
           | Inr ys \<Rightarrow> (case concat_leading ys of
                         Inl e \<Rightarrow> Inl e
                       | Inr ts \<Rightarrow> Inr (Single (Leaf (Arr ts)))))
      | Many ys # rest \<Rightarrow>
          (case concat_columns [0..<length ys] outs of
             Inl e \<Rightarrow> Inl e
           | Inr cs \<Rightarrow> Inr (Many cs)))"


section \<open>Repeat composer: \<^verbatim>\<open>RepeatLayer.FProp\<close>\<close>

text \<open>Python's \<^verbatim>\<open>str(n)\<close> of a natural number, for the state keys \<^verbatim>\<open>'_s{}'.format(idx)\<close>.\<close>

definition digit_char :: "nat \<Rightarrow> char" where
  "digit_char d = ''0123456789'' ! d"

function str_nat :: "nat \<Rightarrow> string" where
  "str_nat n = (if n < 10 then [digit_char n] else str_nat (n div 10) @ [digit_char (n mod 10)])"
  by pat_completeness auto
termination
  by (relation "measure id") auto

declare str_nat.simps [simp del]

definition state_key :: "nat \<Rightarrow> string" where
  "state_key idx = ''_s'' @ str_nat idx"

text \<open>
  \<^verbatim>\<open>_MaybeStackExtraTheta(theta, all_vars, repeat)\<close>: every leaf that is not one of
  the body's variables and is not \<^verbatim>\<open>None\<close> is replaced by
  \<^verbatim>\<open>tf.stack([value] * repeat)\<close>. \<open>all_vars\<close> are the paths of \<^verbatim>\<open>self.body.vars\<close>.
\<close>

fun stack_extra_loop :: "string list \<Rightarrow> int \<Rightarrow> (string \<times> tensor option) list \<Rightarrow> tensor option list" where
  "stack_extra_loop var_set repeat [] = []"
| "stack_extra_loop var_set repeat ((key, val) # rest) =
     (if key \<notin> set var_set \<and> val \<noteq> None
      then map_option (\<lambda>t. tf_stack (replicate (nat repeat) t)) val
      else val) # stack_extra_loop var_set repeat rest"

definition MaybeStackExtraTheta :: "ptree \<Rightarrow> string list \<Rightarrow> int \<Rightarrow> ptree" where
  "MaybeStackExtraTheta theta all_vars repeat =
     Pack theta (stack_extra_loop all_vars repeat (FlattenItems theta))"

text \<open>
  The carried state is a \<^verbatim>\<open>NestedMap\<close> from \<^verbatim>\<open>'_s<idx>'\<close> to the tensor at
  position \<open>idx\<close>; \<^verbatim>\<open>None\<close> values are left out. \<^verbatim>\<open>_ArgsToState(arg_list)\<close> loops
  over \<^verbatim>\<open>range(len(args))\<close>, \<open>args\<close> being the composer's own arguments, whose
  number is \<open>n\<close> here.
\<close>

type_synonym rstate = "(string \<times> tensor val) list"

fun ArgsToState_loop :: "'a val list \<Rightarrow> nat list \<Rightarrow> (string \<times> 'a val) list \<Rightarrow> error + (string \<times> 'a val) list" where
  "ArgsToState_loop arg_list [] state = Inr state"
| "ArgsToState_loop arg_list (idx # rest) state =
     (case py_index arg_list (int idx) of
        Inl e \<Rightarrow> Inl e
      | Inr v \<Rightarrow>
          ArgsToState_loop arg_list rest
            (if v \<noteq> NoneV then AList.update (state_key idx) v state else state))"

definition ArgsToState :: "nat \<Rightarrow> 'a val list \<Rightarrow> error + (string \<times> 'a val) list" where
  "ArgsToState n arg_list = ArgsToState_loop arg_list [0..<n] []"

text \<open>
  \<^verbatim>\<open>dst.set_shape(src.shape)\<close>: the attribute \<^verbatim>\<open>set_shape\<close> of \<open>dst\<close> is looked
  up first, then \<^verbatim>\<open>src.shape\<close>; the call fails when the two shapes differ.
\<close>

definition set_shape_from :: "tensor val \<Rightarrow> tensor val \<Rightarrow> error + unit" where
  "set_shape_from dst src =
     (case dst of
        Leaf t \<Rightarrow>
          (case src of
             Leaf u \<Rightarrow> if shape_of t = shape_of u then Inr () else Inl ValueError
           | v \<Rightarrow> Inl (no_method ''shape'' v))
      | v \<Rightarrow> Inl (no_method ''set_shape'' v))"

text \<open>
  \<^verbatim>\<open>_StateToArgs(state)\<close>: for every position of \<open>args\<close> the tensor of the state or
  \<^verbatim>\<open>None\<close>; a tensor gets the shape of the composer's argument at that position.
\<close>

fun StateToArgs_loop :: "tensor val list \<Rightarrow> rstate \<Rightarrow> nat list \<Rightarrow> error + tensor val list" where
  "StateToArgs_loop args state [] = Inr []"
| "StateToArgs_loop args state (idx # rest) =
     (case (case map_of state (state_key idx) of
              None \<Rightarrow> Inr NoneV
            | Some v \<Rightarrow>
                if v = NoneV then Inr NoneV
                else (case py_index args (int idx) of
                        Inl e \<Rightarrow> Inl e
                      | Inr a \<Rightarrow> (case set_shape_from v a of Inl e \<Rightarrow> Inl e | Inr u \<Rightarrow> Inr v))) of
        Inl e \<Rightarrow> Inl e
      | Inr v \<Rightarrow>
          (case StateToArgs_loop args state rest of
             Inl e \<Rightarrow> Inl e
           | Inr vs \<Rightarrow> Inr (v # vs)))"

definition StateToArgs :: "tensor val list \<Rightarrow> rstate \<Rightarrow> error + tensor val list" where
  "StateToArgs args state = StateToArgs_loop args state [0..<length args]"

text \<open>
  The loop of \<^verbatim>\<open>_CellFn\<close> over \<^verbatim>\<open>zip(theta_i.Flatten(), theta_stack.Flatten())\<close>:
  \<^verbatim>\<open>if src is not None: dst.set_shape(src.shape[1:])\<close>.
\<close>

fun set_slice_shapes :: "(tensor option \<times> tensor option) list \<Rightarrow> error + unit" where
  "set_slice_shapes [] = Inr ()"
| "set_slice_shapes ((dst, src) # rest) =
     (case src of
        None \<Rightarrow> set_slice_shapes rest
      | Some s \<Rightarrow>
          (case dst of
             None \<Rightarrow> Inl AttributeError
           | Some d \<Rightarrow>
               if shape_of d = drop 1 (shape_of s) then set_slice_shapes rest
               else Inl ValueError))"

text \<open>
  \<^verbatim>\<open>_CellFn(unused_theta, state0, theta_i)\<close>: the arguments from the state, the
  shapes of \<open>theta_i\<close>, one call of the body's \<^verbatim>\<open>FProp\<close>, the assertion
  \<^verbatim>\<open>len(frop_outputs) == len(frop_inputs)\<close>, and the outputs as the next state.
\<close>

definition CellFn ::
  "(ptree \<Rightarrow> tensor val list \<Rightarrow> error + tensor val) \<Rightarrow> tensor val list \<Rightarrow> ptree
     \<Rightarrow> rstate \<Rightarrow> ptree \<Rightarrow> error + rstate" where
  "CellFn body_FProp args theta_stack state0 theta_i =
     (case StateToArgs args state0 of
        Inl e \<Rightarrow> Inl e
      | Inr frop_inputs \<Rightarrow>
          (case set_slice_shapes (zip (Flatten theta_i) (Flatten theta_stack)) of
             Inl e \<Rightarrow> Inl e
           | Inr u \<Rightarrow>
               (case body_FProp theta_i frop_inputs of
                  Inl e \<Rightarrow> Inl e
                | Inr out \<Rightarrow>
                    if length (ToTuple out) \<noteq> length frop_inputs then Inl AssertionError
                    else ArgsToState (length args) (ToTuple out))))"

text \<open>
  Modelled from the spec: \<^verbatim>\<open>recurrent.Recurrent\<close> is not part of the file. The
  specification gives \<^verbatim>\<open>scan(initialState, perIterationInputs, stepFn) -> finalState\<close>,
  ``iterated sequentially over the leading axis of \<^verbatim>\<open>perIterationInputs\<close>'': the
  leaves of the stacked parameter tree are cut along their leading axis, which has to
  be the same for all of them, and the step function runs once per slice, in order.
\<close>

fun unstack_leaves :: "ptree \<Rightarrow> error + (string \<times> tensor list option) list" where
  "unstack_leaves [] = Inr []"
| "unstack_leaves ((key, None) # rest) =
     (case unstack_leaves rest of Inl e \<Rightarrow> Inl e | Inr us \<Rightarrow> Inr ((key, None) # us))"
| "unstack_leaves ((key, Some t) # rest) =
     (case unstack t of
        Inl e \<Rightarrow> Inl e
      | Inr ts \<Rightarrow> (case unstack_leaves rest of Inl e \<Rightarrow> Inl e | Inr us \<Rightarrow> Inr ((key, Some ts) # us)))"

definition leading_slices :: "ptree \<Rightarrow> error + ptree list" where
  "leading_slices theta_stack =
     (case unstack_leaves theta_stack of
        Inl e \<Rightarrow> Inl e
      | Inr us \<Rightarrow>
          (case concat (map (\<lambda>(key, v). case v of None \<Rightarrow> [] | Some ts \<Rightarrow> [length ts]) us) of
             [] \<Rightarrow> Inl ValueError
           | n # ns \<Rightarrow>
               if list_all (\<lambda>m. m = n) ns
               then Inr (map (\<lambda>i. map (\<lambda>(key, v). (key, map_option (\<lambda>ts. ts ! i) v)) us) [0..<n])
               else Inl ValueError))"

fun scan :: "('st \<Rightarrow> 'x \<Rightarrow> error + 'st) \<Rightarrow> 'st \<Rightarrow> 'x list \<Rightarrow> error + 'st" where
  "scan stepFn state [] = Inr state"
| "scan stepFn state (x # xs) =
     (case stepFn state x of
        Inl e \<Rightarrow> Inl e
      | Inr state' \<Rightarrow> scan stepFn state' xs)"

definition Recurrent :: "rstate \<Rightarrow> ptree \<Rightarrow> (rstate \<Rightarrow> ptree \<Rightarrow> error + rstate) \<Rightarrow> error + rstate" where
  "Recurrent state0 inputs cell_fn =
     (case leading_slices inputs of
        Inl e \<Rightarrow> Inl e
      | Inr slices \<Rightarrow> scan cell_fn state0 slices)"

text \<open>
  \<^verbatim>\<open>RepeatLayer.FProp(theta, *args)\<close>. \<open>theta\<close> maps the child name \<^verbatim>\<open>body\<close> to the
  body's parameter tree; \<open>body_vars\<close> are the paths of \<^verbatim>\<open>self.body.vars\<close>.
\<close>

definition RepeatLayer_FProp ::
  "(ptree \<Rightarrow> tensor val list \<Rightarrow> error + tensor val) \<Rightarrow> string list \<Rightarrow> 'b Repeat_params
     \<Rightarrow> (string \<times> ptree) list \<Rightarrow> tensor val list \<Rightarrow> error + tensor val" where
  "RepeatLayer_FProp body_FProp body_vars p theta args =
     (case map_of theta ''body'' of
        None \<Rightarrow> Inl AttributeError
      | Some theta_body \<Rightarrow>
          (case ArgsToState (length args) args of
             Inl e \<Rightarrow> Inl e
           | Inr state0 \<Rightarrow>
               (case Recurrent state0 (MaybeStackExtraTheta theta_body body_vars (rp_repeat p))
                       (CellFn body_FProp args
                          (MaybeStackExtraTheta theta_body body_vars (rp_repeat p))) of
                  Inl e \<Rightarrow> Inl e
                | Inr state1 \<Rightarrow>
                    (case StateToArgs args state1 of
                       Inl e \<Rightarrow> Inl e
                     | Inr output_tensors \<Rightarrow>
                         if length args = 1 then py_index output_tensors 0
                         else Inr (TupleV output_tensors)))))"

fun is_tuple :: "'a val \<Rightarrow> bool" where
  "is_tuple (TupleV xs) = True"
| "is_tuple v = False"


section \<open>Soft-conditional composer: \<^verbatim>\<open>SoftCondLayer.FProp\<close>\<close>

record 'b SoftCond_params =
  sc_name :: string
  sc_body :: 'b
  sc_num_experts :: int
  sc_cond_dim :: int
  sc_is_eval :: bool

text \<open>\<^verbatim>\<open>theta.w\<close>, the mixing matrix, and \<^verbatim>\<open>theta.body\<close>, the stacked parameters of the body.\<close>

record SoftCond_theta =
  th_w :: tensor
  th_body :: ptree

text \<open>
  The TensorFlow operators of \<^verbatim>\<open>_GetExpertDist\<close> and \<^verbatim>\<open>FProp\<close>, by their documented
  meaning, numbers being real. \<^verbatim>\<open>tf.reshape(inputs, [-1, cond_dim])\<close> cuts the numbers
  of \<open>inputs\<close> into rows of length \<open>cond_dim\<close>; \<^verbatim>\<open>tf.reduce_sum(rows, 0)\<close> adds the
  rows up.
\<close>

definition tf_reshape_rows :: "tensor \<Rightarrow> int \<Rightarrow> error + real list list" where
  "tf_reshape_rows inputs cond_dim =
     (if cond_dim \<le> 0 \<or> length (flat inputs) mod nat cond_dim \<noteq> 0 then Inl ValueError
      else Inr (map (\<lambda>i. take (nat cond_dim) (drop (i * nat cond_dim) (flat inputs)))
                   [0..<length (flat inputs) div nat cond_dim]))"

definition tf_reduce_sum_rows :: "nat \<Rightarrow> real list list \<Rightarrow> real list" where
  "tf_reduce_sum_rows width rows = foldr (\<lambda>row acc. map2 (+) row acc) rows (replicate width 0)"

text \<open>A rank-2 tensor as its list of rows.\<close>

fun nums_of :: "tensor list \<Rightarrow> error + real list" where
  "nums_of [] = Inr []"
| "nums_of (Num x # ts) = (case nums_of ts of Inl e \<Rightarrow> Inl e | Inr xs \<Rightarrow> Inr (x # xs))"
| "nums_of (Arr us # ts) = Inl ValueError"

fun rows_of :: "tensor list \<Rightarrow> error + real list list" where
  "rows_of [] = Inr []"
| "rows_of (Arr us # ts) =
     (case nums_of us of
        Inl e \<Rightarrow> Inl e
      | Inr r \<Rightarrow> (case rows_of ts of Inl e \<Rightarrow> Inl e | Inr rs \<Rightarrow> Inr (r # rs)))"
| "rows_of (Num x # ts) = Inl ValueError"

text \<open>
  \<^verbatim>\<open>tf.einsum('i,ij->j', emb, w)\<close>: \<open>w\<close> has to be a matrix with as many rows as
  \<open>emb\<close> has entries; entry \<open>j\<close> of the result is the sum of \<open>emb[i] * w[i][j]\<close>.
\<close>

definition tf_einsum_i_ij_j :: "real list \<Rightarrow> tensor \<Rightarrow> error + real list" where
  "tf_einsum_i_ij_j emb w =
     (case w of
        Num x \<Rightarrow> Inl ValueError
      | Arr ts \<Rightarrow>
          (case rows_of ts of
             Inl e \<Rightarrow> Inl e
           | Inr [] \<Rightarrow> Inl ValueError
           | Inr (r # rs) \<Rightarrow>
               if length (r # rs) \<noteq> length emb \<or> \<not> list_all (\<lambda>x. length x = length r) rs
               then Inl ValueError
               else Inr (foldr (\<lambda>(e, row) acc. map2 (+) (map ((*) e) row) acc)
                           (zip emb (r # rs)) (replicate (length r) 0))))"

text \<open>
  \<^verbatim>\<open>tf.nn.sigmoid\<close>, as the real function it rounds. The floating-point operator
  agrees with it at \<open>0\<close> (the value \<open>1/2\<close>) and saturates to \<open>0\<close> and to \<open>1\<close> far
  from it; no statement below relies on the range of the function.
\<close>

definition sigmoid :: "real \<Rightarrow> real" where
  "sigmoid x = 1 / (1 + exp (- x))"

text \<open>
  \<^verbatim>\<open>tf.einsum('i,i...->...', expert_dist, value)\<close>: the weighted sum of the slices of
  \<open>value\<close> along its leading (expert) axis, slice \<open>i\<close> weighted by \<open>expert_dist[i]\<close>; the
  leading axis has to be as long as \<open>expert_dist\<close>, and at least 1.
\<close>

fun weighted_sum :: "real list \<Rightarrow> tensor list \<Rightarrow> error + tensor" where
  "weighted_sum [d] [v] = Inr (scale d v)"
| "weighted_sum (d # ds) (v # vs) =
     (case weighted_sum ds vs of
        Inl e \<Rightarrow> Inl e
      | Inr acc \<Rightarrow> add (scale d v) acc)"
| "weighted_sum ds vs = Inl ValueError"

fun tf_einsum_blend :: "real list \<Rightarrow> tensor \<Rightarrow> error + tensor" where
  "tf_einsum_blend expert_dist (Arr slices) = weighted_sum expert_dist slices"
| "tf_einsum_blend expert_dist (Num x) = Inl ValueError"

text \<open>
  \<^verbatim>\<open>_GetExpertDist(theta, inputs, *args)\<close>: the summed embedding times the mixing
  matrix, squashed by the sigmoid: one gate weight per expert.
\<close>

definition GetExpertDist ::
  "'b SoftCond_params \<Rightarrow> SoftCond_theta \<Rightarrow> tensor \<Rightarrow> tensor val list \<Rightarrow> error + real list" where
  "GetExpertDist p theta inputs args =
     (case tf_reshape_rows inputs (sc_cond_dim p) of
        Inl e \<Rightarrow> Inl e
      | Inr rows \<Rightarrow>
          (case tf_einsum_i_ij_j (tf_reduce_sum_rows (nat (sc_cond_dim p)) rows) (th_w theta) of
             Inl e \<Rightarrow> Inl e
           | Inr z \<Rightarrow> Inr (map sigmoid z)))"

text \<open>
  The loop \<^verbatim>\<open>for key, value in theta.body.FlattenItems()\<close>: a leaf that is one of the
  body's variables and not \<^verbatim>\<open>None\<close> is replaced by its weighted sum, every leaf is
  appended to \<^verbatim>\<open>values\<close>.
\<close>

fun blend_loop :: "string list \<Rightarrow> real list \<Rightarrow> (string \<times> tensor option) list \<Rightarrow> error + tensor option list" where
  "blend_loop var_set expert_dist [] = Inr []"
| "blend_loop var_set expert_dist ((key, val) # rest) =
     (case (case val of
              Some t \<Rightarrow>
                if key \<in> set var_set
                then (case tf_einsum_blend expert_dist t of Inl e \<Rightarrow> Inl e | Inr t' \<Rightarrow> Inr (Some t'))
                else Inr val
            | None \<Rightarrow> Inr val) of
        Inl e \<Rightarrow> Inl e
      | Inr v \<Rightarrow>
          (case blend_loop var_set expert_dist rest of
             Inl e \<Rightarrow> Inl e
           | Inr vs \<Rightarrow> Inr (v # vs)))"

text \<open>
  \<^verbatim>\<open>FProp(theta, inputs, *args)\<close>. The body's \<^verbatim>\<open>FProp\<close> is a state transformer over
  an arbitrary state \<open>'st\<close>, so that the number of its invocations can be observed;
  the histogram summary is logging and is left out. \<open>body_vars\<close> are the paths of
  \<^verbatim>\<open>self.body.vars\<close>.
\<close>

definition SoftCondLayer_FProp ::
  "(ptree \<Rightarrow> tensor val list \<Rightarrow> 'st \<Rightarrow> (error + tensor val) \<times> 'st) \<Rightarrow> string list
     \<Rightarrow> 'b SoftCond_params \<Rightarrow> SoftCond_theta \<Rightarrow> tensor \<Rightarrow> tensor val list \<Rightarrow> 'st
     \<Rightarrow> (error + tensor val) \<times> 'st" where
  "SoftCondLayer_FProp body_FProp body_vars p theta inputs args st =
     (case GetExpertDist p theta inputs args of
        Inl e \<Rightarrow> (Inl e, st)
      | Inr expert_dist \<Rightarrow>
          (case blend_loop body_vars expert_dist (FlattenItems (th_body theta)) of
             Inl e \<Rightarrow> (Inl e, st)
           | Inr values \<Rightarrow>
               body_FProp (Pack (th_body theta) values) (Leaf inputs # args) st))"

text \<open>A body without effects as a state transformer, and one that counts its invocations.\<close>

definition stateless ::
  "(ptree \<Rightarrow> tensor val list \<Rightarrow> error + tensor val)
     \<Rightarrow> ptree \<Rightarrow> tensor val list \<Rightarrow> 'st \<Rightarrow> (error + tensor val) \<times> 'st" where
  "stateless body_FProp theta args st = (body_FProp theta args, st)"

definition counting ::
  "(ptree \<Rightarrow> tensor val list \<Rightarrow> error + tensor val)
     \<Rightarrow> ptree \<Rightarrow> tensor val list \<Rightarrow> nat \<Rightarrow> (error + tensor val) \<times> nat" where
  "counting body_FProp theta args calls = (body_FProp theta args, Suc calls)"

text \<open>
  The specification's reading of ``its single (unstacked) parameter copy'' for one
  expert: every variable leaf without its leading axis of length 1, every other leaf
  as it is.
\<close>

fun single_copy :: "string list \<Rightarrow> ptree \<Rightarrow> ptree" where
  "single_copy var_set [] = []"
| "single_copy var_set ((key, val) # rest) =
     (key, (case val of
              Some (Arr [t]) \<Rightarrow> if key \<in> set var_set then Some t else val
            | _ \<Rightarrow> val)) # single_copy var_set rest"

text \<open>The same copy with every variable leaf multiplied by the gate weight \<open>g\<close>.\<close>

fun gated_copy :: "real \<Rightarrow> string list \<Rightarrow> ptree \<Rightarrow> ptree" where
  "gated_copy g var_set [] = []"
| "gated_copy g var_set ((key, val) # rest) =
     (key, (case val of
              Some (Arr [t]) \<Rightarrow> if key \<in> set var_set then Some (scale g t) else val
            | _ \<Rightarrow> val)) # gated_copy g var_set rest"

text \<open>
  The specification's reading of the blended parameter tree, leaf by leaf: the path is
  kept; a leaf that is a registered variable and not \<^verbatim>\<open>None\<close> becomes the weighted
  sum of its slices along the leading axis, with the gate weights; every other leaf is
  unchanged.
\<close>

fun blended_leaf :: "string list \<Rightarrow> real list \<Rightarrow> string \<times> tensor option \<Rightarrow> string \<times> tensor option \<Rightarrow> bool" where
  "blended_leaf var_set gate (key, val) (key', val') =
     (key' = key \<and>
      (if key \<in> set var_set \<and> val \<noteq> None
       then (case val of
               Some (Arr slices) \<Rightarrow>
                 (case weighted_sum gate slices of Inr t \<Rightarrow> val' = Some t | Inl e \<Rightarrow> False)
             | _ \<Rightarrow> False)
       else val' = val))"

definition blended_tree :: "string list \<Rightarrow> real list \<Rightarrow> ptree \<Rightarrow> ptree \<Rightarrow> bool" where
  "blended_tree var_set gate theta theta' = list_all2 (blended_leaf var_set gate) theta theta'"


section \<open>Graph composer: strings, signatures and the named-tensor namespace\<close>

text \<open>
  Python's \<^verbatim>\<open>str.strip()\<close> and \<^verbatim>\<open>str.split(sep)\<close>. A character is a code point
  below 256; the white space among them is what \<^verbatim>\<open>strip\<close> removes at both ends.
  \<^verbatim>\<open>split\<close> cuts at the non-overlapping occurrences of a non-empty separator, from
  the left, and always returns at least one piece.
\<close>

definition is_space :: "char \<Rightarrow> bool" where
  "is_space c =
     ((9 \<le> (of_char c :: nat) \<and> (of_char c :: nat) \<le> 13)
      \<or> (28 \<le> (of_char c :: nat) \<and> (of_char c :: nat) \<le> 32)
      \<or> (of_char c :: nat) = 133 \<or> (of_char c :: nat) = 160)"

definition strip :: "string \<Rightarrow> string" where
  "strip s = rev (dropWhile is_space (rev (dropWhile is_space s)))"

fun split_from :: "string \<Rightarrow> string \<Rightarrow> string \<Rightarrow> string list" where
  "split_from sep piece [] = [piece]"
| "split_from sep piece (c # cs) =
     (if sep \<noteq> [] \<and> prefix sep (c # cs)
      then piece # split_from sep [] (drop (length sep) (c # cs))
      else split_from sep (piece @ [c]) cs)"

definition py_split :: "string \<Rightarrow> string \<Rightarrow> string list" where
  "py_split sep s = split_from sep [] s"

text \<open>
  The compiled pattern
  \<^verbatim>\<open>[_a-zA-Z][_a-zA-Z0-9]*(\.[_a-zA-Z][_a-zA-Z0-9]*)*$\<close> under \<^verbatim>\<open>re.match\<close>:
  anchored at the start; \<^verbatim>\<open>$\<close> matches at the end of the string and before a
  newline that ends it. \<open>id_regex_sub\<close> stands before the first character of a
  component, \<open>id_regex_rest\<close> after one.
\<close>

definition is_id_start :: "char \<Rightarrow> bool" where
  "is_id_start c =
     (c = CHR ''_''
      \<or> (97 \<le> (of_char c :: nat) \<and> (of_char c :: nat) \<le> 122)
      \<or> (65 \<le> (of_char c :: nat) \<and> (of_char c :: nat) \<le> 90))"

definition is_id_char :: "char \<Rightarrow> bool" where
  "is_id_char c = (is_id_start c \<or> (48 \<le> (of_char c :: nat) \<and> (of_char c :: nat) \<le> 57))"

fun id_regex_sub :: "string \<Rightarrow> bool"
  and id_regex_rest :: "string \<Rightarrow> bool" where
  "id_regex_sub [] = False"
| "id_regex_sub (c # cs) = (is_id_start c \<and> id_regex_rest cs)"
| "id_regex_rest [] = True"
| "id_regex_rest (c # cs) =
     (if is_id_char c then id_regex_rest cs
      else if c = CHR ''.'' then id_regex_sub cs
      else (c = CHR 0x0A \<and> cs = []))"

definition id_regex_match :: "string \<Rightarrow> bool" where
  "id_regex_match x = id_regex_sub x"

text \<open>
  \<^verbatim>\<open>GraphLayer.ParseSignature(s)\<close>: exactly two pieces around \<^verbatim>\<open>'->'\<close>, each cut at
  the commas, every name stripped, the two lists non-empty, every name matching the
  pattern.
\<close>

definition ParseSignature :: "string \<Rightarrow> error + string list \<times> string list" where
  "ParseSignature s =
     (case py_split ''->'' s of
        [lhs, rhs] \<Rightarrow>
          if map strip (py_split '','' lhs) = [] then Inl AssertionError
          else if map strip (py_split '','' rhs) = [] then Inl AssertionError
          else if \<not> list_all id_regex_match (map strip (py_split '','' lhs)) then Inl AssertionError
          else if \<not> list_all id_regex_match (map strip (py_split '','' rhs)) then Inl AssertionError
          else Inr (map strip (py_split '','' lhs), map strip (py_split '','' rhs))
      | _ \<Rightarrow> Inl AssertionError)"



definition path_names :: "string \<Rightarrow> string list" where
  "path_names path = py_split ''.'' (strip path)"







section \<open>Graph composer: construction, \<^verbatim>\<open>FProp\<close> and \<^verbatim>\<open>FPropMeta\<close>\<close>



















definition sig_outputs :: "string \<Rightarrow> string list" where
  "sig_outputs s = (case ParseSignature s of Inl e \<Rightarrow> [] | Inr io \<Rightarrow> snd io)"



definition written_names :: "string list \<Rightarrow> string list \<Rightarrow> string list list" where
  "written_names endpoints sigs = map path_names (endpoints @ concat (map sig_outputs sigs))"






section \<open>Selector layers: results\<close>

lemma py_index_0: "py_index (a # as) 0 = Inr a"
  by (simp add: py_index_def)

text \<open>
  Claim C8. \<^verbatim>\<open>FirstN(n)\<close>: construction fails when \<open>n \<le> 0\<close>; a call with fewer than
  \<open>n\<close> inputs fails; with at least \<open>n\<close> inputs it returns the first \<open>n\<close> in order, as a
  tuple when \<open>n > 1\<close> and as the bare first input when \<open>n = 1\<close>; \<^verbatim>\<open>FPropMeta\<close>
  selects the first \<open>n\<close> shape descriptors in the same way, at cost 0.
\<close>

theorem FirstN_selects_first_n:
  fixes p :: FirstN_params and args :: "'a val list" and shapes :: "'s val list"
  shows "(fn_n p \<le> 0 \<longrightarrow> FirstNLayer_init p = Inl AssertionError)
       \<and> (fn_name p \<noteq> [] \<and> 0 < fn_n p \<longrightarrow> FirstNLayer_init p = Inr p)
       \<and> (int (length args) < fn_n p \<longrightarrow> FirstNLayer_FProp p theta args = Inl AssertionError)
       \<and> (1 < fn_n p \<and> fn_n p \<le> int (length args) \<longrightarrow>
            FirstNLayer_FProp p theta args = Inr (TupleV (take (nat (fn_n p)) args)))
       \<and> (fn_n p = 1 \<and> 1 \<le> length args \<longrightarrow>
            FirstNLayer_FProp p theta args = Inr (hd args))
       \<and> (0 < fn_n p \<and> fn_n p \<le> int (length shapes) \<and> CheckShapes shapes \<longrightarrow>
            FirstNLayer_FPropMeta CheckShapes p shapes
              = Inr \<lparr>flops = 0, out_shapes = take (nat (fn_n p)) shapes\<rparr>)"
proof (intro conjI impI)
  assume "fn_n p \<le> 0"
  then show "FirstNLayer_init p = Inl AssertionError"
    by (simp add: FirstNLayer_init_def)
next
  assume "fn_name p \<noteq> [] \<and> 0 < fn_n p"
  then show "FirstNLayer_init p = Inr p"
    by (simp add: FirstNLayer_init_def)
next
  assume "int (length args) < fn_n p"
  then show "FirstNLayer_FProp p theta args = Inl AssertionError"
    by (simp add: FirstNLayer_FProp_def)
next
  assume "1 < fn_n p \<and> fn_n p \<le> int (length args)"
  then show "FirstNLayer_FProp p theta args = Inr (TupleV (take (nat (fn_n p)) args))"
    by (simp add: FirstNLayer_FProp_def)
next
  assume h: "fn_n p = 1 \<and> 1 \<le> length args"
  then obtain a as where "args = a # as" by (cases args) auto
  with h show "FirstNLayer_FProp p theta args = Inr (hd args)"
    by (simp add: FirstNLayer_FProp_def py_index_0)
next
  assume h: "0 < fn_n p \<and> fn_n p \<le> int (length shapes) \<and> CheckShapes shapes"
  show "FirstNLayer_FPropMeta CheckShapes p shapes
          = Inr \<lparr>flops = 0, out_shapes = take (nat (fn_n p)) shapes\<rparr>"
  proof (cases "1 < fn_n p")
    case True
    with h show ?thesis by (simp add: FirstNLayer_FPropMeta_def)
  next
    case False
    with h have n1: "fn_n p = 1" by simp
    with h obtain a as where "shapes = a # as" by (cases shapes) auto
    with h n1 show ?thesis
      by (simp add: FirstNLayer_FPropMeta_def py_index_0)
  qed
qed

theorem FirstN_selects_first_n_witness:
  "FirstNLayer_init \<lparr>fn_name = ''first'', fn_n = 0\<rparr> = Inl AssertionError
   \<and> FirstNLayer_init \<lparr>fn_name = ''first'', fn_n = 2\<rparr> = Inr \<lparr>fn_name = ''first'', fn_n = 2\<rparr>
   \<and> FirstNLayer_FProp \<lparr>fn_name = ''first'', fn_n = 2\<rparr> () [Leaf (7::int)] = Inl AssertionError
   \<and> FirstNLayer_FProp \<lparr>fn_name = ''first'', fn_n = 2\<rparr> () [Leaf (7::int), NoneV, Leaf 9]
       = Inr (TupleV [Leaf 7, NoneV])
   \<and> FirstNLayer_FProp \<lparr>fn_name = ''first'', fn_n = 1\<rparr> () [Leaf (7::int), NoneV] = Inr (Leaf 7)
   \<and> FirstNLayer_FPropMeta (\<lambda>_. True) \<lparr>fn_name = ''first'', fn_n = 2\<rparr>
        [Leaf [3::int, 4], Leaf [5], Leaf []]
       = Inr \<lparr>flops = 0, out_shapes = [Leaf [3, 4], Leaf [5]]\<rparr>"
  using FirstN_selects_first_n [of "\<lparr>fn_name = ''first'', fn_n = 0\<rparr>" "[]::int val list" "()" "[]::int list val list" "\<lambda>_. True"]
        FirstN_selects_first_n [of "\<lparr>fn_name = ''first'', fn_n = 2\<rparr>" "[Leaf (7::int)]" "()"
           "[Leaf [3::int, 4], Leaf [5], Leaf []]" "\<lambda>_. True"]
        FirstN_selects_first_n [of "\<lparr>fn_name = ''first'', fn_n = 2\<rparr>" "[Leaf (7::int), NoneV, Leaf 9]" "()"
           "[]::int list val list" "\<lambda>_. True"]
        FirstN_selects_first_n [of "\<lparr>fn_name = ''first'', fn_n = 1\<rparr>" "[Leaf (7::int), NoneV]" "()"
           "[]::int list val list" "\<lambda>_. True"]
  by simp

text \<open>
  Claim C9. The precondition loop of \<^verbatim>\<open>ArgIndexLayer.FProp\<close> asserts
  \<^verbatim>\<open>0 <= i <= len(args)\<close>, so it accepts the index \<open>len(args)\<close>, one past the last
  position: with one input and \<open>idx = [1]\<close> the check passes and the selection
  \<^verbatim>\<open>args[1]\<close> that follows is out of bounds.
\<close>

theorem ArgIndex_accepts_index_past_end:
  "ArgIndex_precondition [1] [Leaf (7::int)]
   \<and> \<not> (0 \<le> (1::int) \<and> (1::int) < int (length [Leaf (7::int)]))
   \<and> ArgIndexLayer_FProp \<lparr>ai_name = ''pick'', ai_idx = [1]\<rparr> () [Leaf (7::int)] = Inl IndexError"
  by (simp add: ArgIndex_precondition_def ArgIndexLayer_FProp_def py_index_def)


section \<open>Sequential composer: cost and shapes of \<^verbatim>\<open>FPropMeta\<close>\<close>

lemma thread_shapes_append:
  "thread_shapes M (xs @ ys) shapes =
     (case thread_shapes M xs shapes of
        Inl e \<Rightarrow> Inl e
      | Inr ms \<Rightarrow> (case thread_shapes M ys (threaded_output shapes ms) of
                    Inl e \<Rightarrow> Inl e
                  | Inr ms' \<Rightarrow> Inr (ms @ ms')))"
proof (induction xs arbitrary: shapes)
  case Nil
  show ?case by (simp add: threaded_output_def split: sum.splits)
next
  case (Cons x xs)
  show ?case
  proof (cases "M x shapes")
    case (Inl e)
    then show ?thesis by simp
  next
    case (Inr m)
    then show ?thesis
      by (simp add: Cons.IH [of "out_shapes m"] threaded_output_def split: sum.splits)
  qed
qed

lemma Sequential_sub_loop_threads:
  "Sequential_sub_loop C M subs (tot, shapes) = Inr (tot', shapes') \<longleftrightarrow>
     (\<exists>ms. thread_shapes M subs shapes = Inr ms \<and> list_all (\<lambda>r. C (out_shapes r)) ms
           \<and> tot' = tot + sum_list (map flops ms) \<and> shapes' = threaded_output shapes ms)"
proof (induction subs arbitrary: tot shapes)
  case Nil
  show ?case by (auto simp: threaded_output_def)
next
  case (Cons sub rest)
  show ?case
  proof (cases "M sub shapes")
    case (Inl e)
    then show ?thesis by simp
  next
    case (Inr m)
    show ?thesis
    proof (cases "C (out_shapes m)")
      case False
      with Inr show ?thesis by (auto split: sum.splits)
    next
      case True
      have tail: "threaded_output shapes (m # ms) = threaded_output (out_shapes m) ms" for ms
        by (simp add: threaded_output_def)
      from Inr True show ?thesis
        by (auto simp: Cons.IH tail algebra_simps split: sum.splits)
    qed
  qed
qed

lemma Sequential_repeat_loop_threads:
  "Sequential_repeat_loop C M subs k (tot, shapes) = Inr (tot', shapes') \<longleftrightarrow>
     (\<exists>ms. thread_shapes M (concat (replicate k subs)) shapes = Inr ms
           \<and> list_all (\<lambda>r. C (out_shapes r)) ms
           \<and> tot' = tot + sum_list (map flops ms) \<and> shapes' = threaded_output shapes ms)"
proof (induction k arbitrary: tot shapes)
  case 0
  show ?case by (auto simp: threaded_output_def)
next
  case (Suc k)
  have out_app: "threaded_output shapes (ms @ ms') = threaded_output (threaded_output shapes ms) ms'"
    for ms ms' :: "'a meta list"
    by (simp add: threaded_output_def)
  show ?case
  proof (cases "Sequential_sub_loop C M subs (tot, shapes)")
    case (Inl e)
    have "\<not> (\<exists>ms. thread_shapes M subs shapes = Inr ms \<and> list_all (\<lambda>r. C (out_shapes r)) ms)"
      using Inl Sequential_sub_loop_threads [of C M subs tot shapes] by auto
    with Inl show ?thesis
      by (auto simp: thread_shapes_append split: sum.splits)
  next
    case (Inr st)
    obtain t1 s1 where st: "st = (t1, s1)" by (cases st)
    from Inr st obtain ms1 where ms1: "thread_shapes M subs shapes = Inr ms1"
        "list_all (\<lambda>r. C (out_shapes r)) ms1" "t1 = tot + sum_list (map flops ms1)"
        "s1 = threaded_output shapes ms1"
      using Sequential_sub_loop_threads [of C M subs tot shapes t1 s1] by auto
    show ?thesis
    proof
      assume "Sequential_repeat_loop C M subs (Suc k) (tot, shapes) = Inr (tot', shapes')"
      with Inr st have "Sequential_repeat_loop C M subs k (t1, s1) = Inr (tot', shapes')"
        by simp
      then obtain ms2 where ms2: "thread_shapes M (concat (replicate k subs)) s1 = Inr ms2"
          "list_all (\<lambda>r. C (out_shapes r)) ms2" "tot' = t1 + sum_list (map flops ms2)"
          "shapes' = threaded_output s1 ms2"
        using Suc.IH [of t1 s1] by auto
      have "thread_shapes M (concat (replicate (Suc k) subs)) shapes = Inr (ms1 @ ms2)"
        using ms1 ms2 by (simp add: thread_shapes_append)
      moreover have "list_all (\<lambda>r. C (out_shapes r)) (ms1 @ ms2)"
        using ms1 ms2 by simp
      moreover have "tot' = tot + sum_list (map flops (ms1 @ ms2))"
        using ms1 ms2 by simp
      moreover have "shapes' = threaded_output shapes (ms1 @ ms2)"
        using ms1 ms2 by (simp add: out_app)
      ultimately show "\<exists>ms. thread_shapes M (concat (replicate (Suc k) subs)) shapes = Inr ms
           \<and> list_all (\<lambda>r. C (out_shapes r)) ms
           \<and> tot' = tot + sum_list (map flops ms) \<and> shapes' = threaded_output shapes ms"
        by blast
    next
      assume "\<exists>ms. thread_shapes M (concat (replicate (Suc k) subs)) shapes = Inr ms
           \<and> list_all (\<lambda>r. C (out_shapes r)) ms
           \<and> tot' = tot + sum_list (map flops ms) \<and> shapes' = threaded_output shapes ms"
      then obtain ms where ms: "thread_shapes M (subs @ concat (replicate k subs)) shapes = Inr ms"
          "list_all (\<lambda>r. C (out_shapes r)) ms" "tot' = tot + sum_list (map flops ms)"
          "shapes' = threaded_output shapes ms"
        by auto
      from ms(1) ms1 obtain ms2 where ms2: "thread_shapes M (concat (replicate k subs)) s1 = Inr ms2"
          "ms = ms1 @ ms2"
        by (auto simp: thread_shapes_append split: sum.splits)
      have "Sequential_repeat_loop C M subs k (t1, s1) = Inr (tot', shapes')"
        using Suc.IH [of t1 s1 ] ms ms1 ms2 by (auto simp: out_app)
      with Inr st show "Sequential_repeat_loop C M subs (Suc k) (tot, shapes) = Inr (tot', shapes')"
        by simp
    qed
  qed
qed

text \<open>
  Claim C2. \<^verbatim>\<open>SequentialLayer.FPropMeta\<close> returns a record exactly when the input
  shapes pass the check and threading the shapes through the sub-modules in
  declaration order, \<open>repeat\<close> times over, succeeds with every reported output passing
  the check; the cost is then the sum of the costs the sub-modules reported over all
  repetitions, and the output shapes are those that leave the threaded chain.
\<close>

theorem Sequential_FPropMeta_sums_and_threads:
  "SequentialLayer_FPropMeta CheckShapes FPropMeta_of p args = Inr m \<longleftrightarrow>
     (CheckShapes args \<and>
      (\<exists>ms. thread_shapes FPropMeta_of (concat (replicate (nat (sq_repeat p)) (sq_sub p))) args = Inr ms
            \<and> list_all (\<lambda>r. CheckShapes (out_shapes r)) ms
            \<and> m = \<lparr>flops = sum_list (map flops ms), out_shapes = threaded_output args ms\<rparr>))"
proof (cases "CheckShapes args")
  case False
  then show ?thesis by (simp add: SequentialLayer_FPropMeta_def)
next
  case True
  show ?thesis
  proof (cases "Sequential_repeat_loop CheckShapes FPropMeta_of (sq_sub p) (nat (sq_repeat p)) (0, args)")
    case (Inl e)
    have "\<not> (\<exists>ms. thread_shapes FPropMeta_of (concat (replicate (nat (sq_repeat p)) (sq_sub p))) args = Inr ms
            \<and> list_all (\<lambda>r. CheckShapes (out_shapes r)) ms)"
      using Inl Sequential_repeat_loop_threads
              [of CheckShapes FPropMeta_of "sq_sub p" "nat (sq_repeat p)" 0 args]
      by auto
    with Inl True show ?thesis
      by (auto simp: SequentialLayer_FPropMeta_def)
  next
    case (Inr st)
    obtain t s where st: "st = (t, s)" by (cases st)
    from Inr st obtain ms where ms:
        "thread_shapes FPropMeta_of (concat (replicate (nat (sq_repeat p)) (sq_sub p))) args = Inr ms"
        "list_all (\<lambda>r. CheckShapes (out_shapes r)) ms"
        "t = sum_list (map flops ms)" "s = threaded_output args ms"
      using Sequential_repeat_loop_threads
              [of CheckShapes FPropMeta_of "sq_sub p" "nat (sq_repeat p)" 0 args t s]
      by auto
    with Inr st True show ?thesis
      by (auto simp: SequentialLayer_FPropMeta_def)
  qed
qed

theorem Sequential_FPropMeta_sums_and_threads_witness:
  "CheckShapes_leaves [Leaf [2, 3 :: int]]
   \<and> (\<exists>ms. thread_shapes (cls_FPropMeta CheckShapes_leaves)
              (concat (replicate (nat 2) [Linear_p ''proj'' 3 3, Bias_p ''bias'' 3])) [Leaf [2, 3]] = Inr ms
          \<and> list_all (\<lambda>r. CheckShapes_leaves (out_shapes r)) ms
          \<and> \<lparr>flops = 84, out_shapes = [Leaf [2, 3]]\<rparr>
              = \<lparr>flops = sum_list (map flops ms), out_shapes = threaded_output [Leaf [2, 3]] ms\<rparr>)"
proof -
  have run: "SequentialLayer_FPropMeta CheckShapes_leaves (cls_FPropMeta CheckShapes_leaves)
               \<lparr>sq_name = ''seq'', sq_sub = [Linear_p ''proj'' 3 3, Bias_p ''bias'' 3], sq_repeat = 2\<rparr>
               [Leaf [2, 3]]
             = Inr \<lparr>flops = 84, out_shapes = [Leaf [2, 3]]\<rparr>"
    by (simp add: SequentialLayer_FPropMeta_def CheckShapes_leaves_def numeral_2_eq_2
        LinearLayer_FPropMeta_def BiasLayer_FPropMeta_def py_index_def shape_size_def)
  show ?thesis
    using Sequential_FPropMeta_sums_and_threads
            [of CheckShapes_leaves "cls_FPropMeta CheckShapes_leaves"
                "\<lparr>sq_name = ''seq'', sq_sub = [Linear_p ''proj'' 3 3, Bias_p ''bias'' 3], sq_repeat = 2\<rparr>"
                "[Leaf [2, 3]]" "\<lparr>flops = 84, out_shapes = [Leaf [2, 3]]\<rparr>"]
          run
    by simp
qed


section \<open>Repeat composers: cost of \<^verbatim>\<open>FPropMeta\<close>\<close>

text \<open>
  \<^verbatim>\<open>RepeatLayer.FPropMeta\<close>: whenever it returns a record, the cost is the cost the
  body reports for one instance multiplied by \<open>repeat\<close>, and it returns one when the
  shapes pass the checks and the body reports.
\<close>

lemma RepeatLayer_FPropMeta_cost:
  "RepeatLayer_FPropMeta CheckShapes FPropMeta_of p args = Inr m \<Longrightarrow>
     \<exists>bm. FPropMeta_of (rp_body p) args = Inr bm \<and> flops m = flops bm * rp_repeat p"
  by (auto simp: RepeatLayer_FPropMeta_def split: if_splits sum.splits)

lemma RepeatLayer_FPropMeta_returns:
  "CheckShapes args \<Longrightarrow> FPropMeta_of (rp_body p) args = Inr bm \<Longrightarrow> CheckShapes (out_shapes bm) \<Longrightarrow>
     RepeatLayer_FPropMeta CheckShapes FPropMeta_of p args
       = Inr \<lparr>flops = flops bm * rp_repeat p, out_shapes = args\<rparr>"
  by (simp add: RepeatLayer_FPropMeta_def)

lemma ParallelRepeatLayer_FPropMeta_cost:
  "ParallelRepeatLayer_FPropMeta CheckShapes ops FPropMeta_of p args = Inr m \<Longrightarrow>
     \<exists>slice bm. slice_shapes ops args = Inr slice \<and> FPropMeta_of (rp_body p) slice = Inr bm
        \<and> flops m = flops bm * rp_repeat p"
  by (auto simp: ParallelRepeatLayer_FPropMeta_def split: if_splits sum.splits)

text \<open>
  Claim C3. For \<^verbatim>\<open>RepeatLayer\<close> with a linear body and \<open>repeat = 5\<close> the cost is the
  body's cost \<open>36\<close> times \<open>5\<close>. \<^verbatim>\<open>ParallelRepeatLayer.FPropMeta\<close> computes the same
  product, but it first applies \<^verbatim>\<open>arg.get_shape()\<close> to every shape descriptor: on the
  stacked descriptor \<open>[5, 2, 3]\<close> it raises \<^verbatim>\<open>AttributeError\<close> and returns no cost.
\<close>

theorem ParallelRepeat_FPropMeta_raises_on_shape_descriptors:
  "ParallelRepeatLayer_FPropMeta CheckShapes_leaves Shape_ops (cls_FPropMeta CheckShapes_leaves)
      \<lparr>rp_name = ''rep'', rp_body = Linear_p ''proj'' 3 3, rp_repeat = 5\<rparr> [Leaf [5, 2, 3]]
     = Inl AttributeError
   \<and> RepeatLayer_FPropMeta CheckShapes_leaves (cls_FPropMeta CheckShapes_leaves)
      \<lparr>rp_name = ''rep'', rp_body = Linear_p ''proj'' 3 3, rp_repeat = 5\<rparr> [Leaf [2, 3]]
     = Inr \<lparr>flops = 36 * 5, out_shapes = [Leaf [2, 3]]\<rparr>"
  by (simp add: ParallelRepeatLayer_FPropMeta_def RepeatLayer_FPropMeta_def Shape_ops_def
      CheckShapes_leaves_def LinearLayer_FPropMeta_def py_index_def shape_size_def)

section \<open>Batch-parallel composer with one worker\<close>

text \<open>
  Claim C7, as stated, for every input tuple: it fails for an input tuple that holds a
  value other than a tensor. \<^verbatim>\<open>PrintShapeLayer\<close> returns \<^verbatim>\<open>None\<close> for the
  one-element tuple \<^verbatim>\<open>(None,)\<close>; wrapped in \<^verbatim>\<open>BatchParallelLayer\<close> with one device
  per split, the same call fails the assertion that all arguments are tensors.
\<close>

theorem BatchParallel_one_worker_rejects_None:
  "BatchParallelLayer_FProp 1 SplitRecursively_model ConcatRecursively_model
      PrintShapeLayer_FProp [(''sub'', [] :: ptree)] [NoneV] = Inl AssertionError
   \<and> direct_sub_call PrintShapeLayer_FProp [(''sub'', [] :: ptree)] [NoneV :: tensor val] = Inr NoneV"
  by (simp add: BatchParallelLayer_FProp_def direct_sub_call_def PrintShapeLayer_FProp_def
      py_index_def)

text \<open>
  Claim C7, amended: for every wrapped module, parameter tree and tuple of tensors,
  \<^verbatim>\<open>BatchParallelLayer.FProp\<close> with one device per split returns what the direct call
  \<^verbatim>\<open>self.sub.FProp(theta.sub, *args)\<close> returns, whatever the splitting and
  concatenation functions are: they are not used.
\<close>

theorem BatchParallel_one_worker_is_direct_call:
  "list_all is_Tensor args \<Longrightarrow>
     BatchParallelLayer_FProp 1 SplitRecursively ConcatRecursively sub_FProp theta args
       = direct_sub_call sub_FProp theta args"
  by (simp add: BatchParallelLayer_FProp_def direct_sub_call_def)

theorem BatchParallel_one_worker_is_direct_call_witness:
  "list_all is_Tensor [Leaf (Arr [Num 1, Num 2])]
   \<and> BatchParallelLayer_FProp 1 SplitRecursively_model ConcatRecursively_model
        BiasLayer_FProp [(''sub'', [(''b'', Some (Arr [Num 10, Num 20]))])] [Leaf (Arr [Num 1, Num 2])]
       = direct_sub_call BiasLayer_FProp [(''sub'', [(''b'', Some (Arr [Num 10, Num 20]))])]
           [Leaf (Arr [Num 1, Num 2])]
   \<and> direct_sub_call BiasLayer_FProp [(''sub'', [(''b'', Some (Arr [Num 10, Num 20]))])]
           [Leaf (Arr [Num 1, Num 2])] = Inr (Leaf (Arr [Num 11, Num 22]))"
proof -
  have t: "list_all is_Tensor [Leaf (Arr [Num 1, Num 2])]" by simp
  have d: "direct_sub_call BiasLayer_FProp [(''sub'', [(''b'', Some (Arr [Num 10, Num 20]))])]
           [Leaf (Arr [Num 1, Num 2])] = Inr (Leaf (Arr [Num 11, Num 22]))"
    by (simp add: direct_sub_call_def BiasLayer_FProp_def)
  show ?thesis
    using t d BatchParallel_one_worker_is_direct_call [OF t, of SplitRecursively_model
        ConcatRecursively_model BiasLayer_FProp "[(''sub'', [(''b'', Some (Arr [Num 10, Num 20]))])]"]
    by simp
qed


section \<open>Repeat composer: arity of the body in \<^verbatim>\<open>FProp\<close>\<close>

lemma scan_trace:
  "scan f s xs = Inr s' \<Longrightarrow>
     \<exists>states. length states = Suc (length xs) \<and> states ! 0 = s \<and> last states = s'
        \<and> (\<forall>i<length xs. f (states ! i) (xs ! i) = Inr (states ! Suc i))"
proof (induction xs arbitrary: s)
  case Nil
  then show ?case by (auto intro: exI [of _ "[s]"])
next
  case (Cons x xs)
  from Cons.prems obtain s1 where s1: "f s x = Inr s1" "scan f s1 xs = Inr s'"
    by (auto split: sum.splits)
  from Cons.IH [OF s1(2)] obtain states where st:
      "length states = Suc (length xs)" "states ! 0 = s1" "last states = s'"
      "\<forall>i<length xs. f (states ! i) (xs ! i) = Inr (states ! Suc i)"
    by blast
  have "\<forall>i<length (x # xs). f ((s # states) ! i) ((x # xs) ! i) = Inr ((s # states) ! Suc i)"
  proof (intro allI impI)
    fix i assume "i < length (x # xs)"
    then show "f ((s # states) ! i) ((x # xs) ! i) = Inr ((s # states) ! Suc i)"
      using s1 st by (cases i) auto
  qed
  moreover have "last (s # states) = s'" using st by (cases states) auto
  ultimately show ?case
    using st by (intro exI [of _ "s # states"]) auto
qed

lemma StateToArgs_loop_shape:
  "StateToArgs_loop args state idxs = Inr outs \<Longrightarrow>
     length outs = length idxs \<and> list_all (\<lambda>v. v = NoneV \<or> is_Tensor v) outs"
proof (induction idxs arbitrary: outs)
  case Nil
  then show ?case by simp
next
  case (Cons idx rest)
  from Cons.prems obtain v vs where vs: "outs = v # vs" "StateToArgs_loop args state rest = Inr vs"
      "v = NoneV \<or> is_Tensor v"
    by (auto simp: set_shape_from_def split: sum.splits option.splits if_splits val.splits)
  with Cons.IH [OF vs(2)] show ?case by simp
qed

lemma StateToArgs_shape:
  "StateToArgs args state = Inr outs \<Longrightarrow>
     length outs = length args \<and> list_all (\<lambda>v. v = NoneV \<or> is_Tensor v) outs"
  using StateToArgs_loop_shape [of args state "[0..<length args]" outs]
  by (simp add: StateToArgs_def)

lemma CellFn_Inr:
  "CellFn B args theta_stack st0 theta_i = Inr st1 \<Longrightarrow>
     \<exists>ins out. StateToArgs args st0 = Inr ins \<and> length ins = length args
        \<and> B theta_i ins = Inr out \<and> length (ToTuple out) = length args
        \<and> ArgsToState (length args) (ToTuple out) = Inr st1"
  by (auto simp: CellFn_def dest: StateToArgs_shape split: sum.splits if_splits)

lemma CellFn_wrong_arity:
  "StateToArgs args st0 = Inr ins \<Longrightarrow> B theta_i ins = Inr out \<Longrightarrow>
   length (ToTuple out) \<noteq> length args \<Longrightarrow> \<exists>e. CellFn B args theta_stack st0 theta_i = Inl e"
  by (auto simp: CellFn_def dest: StateToArgs_shape split: sum.splits if_splits)


text \<open>
  Claim C10. Every iteration of \<^verbatim>\<open>RepeatLayer.FProp\<close> that succeeds called the body
  on as many inputs as the composer has arguments and got as many outputs back; an
  iteration whose body returns another number of outputs fails; a successful call is
  a chain of such iterations, one per slice of the stacked parameters, and its result
  is a bare value exactly when the composer was called with one argument (a tuple of
  as many values as arguments otherwise).
\<close>

theorem Repeat_FProp_preserves_arity:
  "(\<forall>st1. CellFn B args theta_stack st0 theta_i = Inr st1 \<longrightarrow>
       (\<exists>ins out. StateToArgs args st0 = Inr ins \<and> B theta_i ins = Inr out
           \<and> length ins = length args \<and> length (ToTuple out) = length args))
   \<and> (\<forall>ins out. StateToArgs args st0 = Inr ins \<and> B theta_i ins = Inr out
          \<and> length (ToTuple out) \<noteq> length args \<longrightarrow>
       (\<exists>e. CellFn B args theta_stack st0 theta_i = Inl e))
   \<and> (\<forall>r. RepeatLayer_FProp B body_vars p theta args = Inr r \<longrightarrow>
       (\<exists>theta_body slices states.
           map_of theta ''body'' = Some theta_body
         \<and> leading_slices (MaybeStackExtraTheta theta_body body_vars (rp_repeat p)) = Inr slices
         \<and> length states = Suc (length slices)
         \<and> ArgsToState (length args) args = Inr (states ! 0)
         \<and> (\<forall>i<length slices.
               CellFn B args (MaybeStackExtraTheta theta_body body_vars (rp_repeat p))
                 (states ! i) (slices ! i) = Inr (states ! Suc i))
         \<and> (\<exists>outs. StateToArgs args (last states) = Inr outs
               \<and> r = (if length args = 1 then hd outs else TupleV outs)))
       \<and> (is_tuple r \<longleftrightarrow> length args \<noteq> 1))"
proof (intro conjI allI impI)
  fix st1
  assume "CellFn B args theta_stack st0 theta_i = Inr st1"
  from CellFn_Inr [OF this]
  show "\<exists>ins out. StateToArgs args st0 = Inr ins \<and> B theta_i ins = Inr out
           \<and> length ins = length args \<and> length (ToTuple out) = length args"
    by blast
next
  fix ins out
  assume "StateToArgs args st0 = Inr ins \<and> B theta_i ins = Inr out
          \<and> length (ToTuple out) \<noteq> length args"
  then show "\<exists>e. CellFn B args theta_stack st0 theta_i = Inl e"
    using CellFn_wrong_arity [of args st0 ins B theta_i out theta_stack] by blast
next
  fix r
  assume run: "RepeatLayer_FProp B body_vars p theta args = Inr r"
  then obtain theta_body state0 slices state1 outs where parts:
      "map_of theta ''body'' = Some theta_body"
      "ArgsToState (length args) args = Inr state0"
      "leading_slices (MaybeStackExtraTheta theta_body body_vars (rp_repeat p)) = Inr slices"
      "scan (CellFn B args (MaybeStackExtraTheta theta_body body_vars (rp_repeat p))) state0 slices
         = Inr state1"
      "StateToArgs args state1 = Inr outs"
      "(if length args = 1 then py_index outs 0 else Inr (TupleV outs)) = Inr r"
    by (auto simp: RepeatLayer_FProp_def Recurrent_def split: option.splits sum.splits)
  from scan_trace [OF parts(4)] obtain states where tr:
      "length states = Suc (length slices)" "states ! 0 = state0" "last states = state1"
      "\<forall>i<length slices.
          CellFn B args (MaybeStackExtraTheta theta_body body_vars (rp_repeat p))
            (states ! i) (slices ! i) = Inr (states ! Suc i)"
    by blast
  from StateToArgs_shape [OF parts(5)]
  have outs: "length outs = length args" "list_all (\<lambda>v. v = NoneV \<or> is_Tensor v) outs"
    by simp_all
  have r_eq: "r = (if length args = 1 then hd outs else TupleV outs)"
  proof (cases "length args = 1")
    case True
    with outs obtain v where "outs = [v]" by (cases outs) auto
    with True parts(6) show ?thesis by (simp add: py_index_def)
  next
    case False
    with parts(6) show ?thesis by simp
  qed
  show "\<exists>theta_body slices states.
           map_of theta ''body'' = Some theta_body
         \<and> leading_slices (MaybeStackExtraTheta theta_body body_vars (rp_repeat p)) = Inr slices
         \<and> length states = Suc (length slices)
         \<and> ArgsToState (length args) args = Inr (states ! 0)
         \<and> (\<forall>i<length slices.
               CellFn B args (MaybeStackExtraTheta theta_body body_vars (rp_repeat p))
                 (states ! i) (slices ! i) = Inr (states ! Suc i))
         \<and> (\<exists>outs. StateToArgs args (last states) = Inr outs
               \<and> r = (if length args = 1 then hd outs else TupleV outs))"
    using parts(1,2,3,5) tr r_eq by blast
  show "is_tuple r \<longleftrightarrow> length args \<noteq> 1"
  proof (cases "length args = 1")
    case True
    with outs obtain v where v: "outs = [v]" "v = NoneV \<or> is_Tensor v" by (cases outs) auto
    with True r_eq have "r = v" by simp
    with v True show ?thesis by (cases v) auto
  next
    case False
    with r_eq show ?thesis by simp
  qed
qed

lemma state_key_0: "state_key 0 = ''_s0''"
  by (simp add: state_key_def str_nat.simps [of 0] digit_char_def)

lemma repeat_run:
  "RepeatLayer_FProp BiasLayer_FProp [''b'']
      \<lparr>rp_name = ''rep'', rp_body = Bias_p ''bias'' 2, rp_repeat = 2\<rparr>
      [(''body'', [(''b'', Some (Arr [Arr [Num 1, Num 2], Arr [Num 10, Num 20]]))])]
      [Leaf (Arr [Num 0, Num 0])]
    = Inr (Leaf (Arr [Num 11, Num 22]))"
  by (simp add: RepeatLayer_FProp_def ArgsToState_def StateToArgs_def Recurrent_def
      leading_slices_def MaybeStackExtraTheta_def Pack_def FlattenItems_def Flatten_def
      CellFn_def BiasLayer_FProp_def set_shape_from_def py_index_def state_key_0
      upt_rec [of 0] )

theorem Repeat_FProp_preserves_arity_witness:
  "RepeatLayer_FProp BiasLayer_FProp [''b'']
      \<lparr>rp_name = ''rep'', rp_body = Bias_p ''bias'' 2, rp_repeat = 2\<rparr>
      [(''body'', [(''b'', Some (Arr [Arr [Num 1, Num 2], Arr [Num 10, Num 20]]))])]
      [Leaf (Arr [Num 0, Num 0])]
    = Inr (Leaf (Arr [Num 11, Num 22]))
   \<and> \<not> is_tuple (Leaf (Arr [Num 11, Num 22]))
   \<and> length [Leaf (Arr [Num 0, Num 0])] = 1"
  using repeat_run
    Repeat_FProp_preserves_arity [of BiasLayer_FProp "[Leaf (Arr [Num 0, Num 0])]" "[]" "[]" "[]"
      "[''b'']" "\<lparr>rp_name = ''rep'', rp_body = Bias_p ''bias'' 2, rp_repeat = 2\<rparr>"
      "[(''body'', [(''b'', Some (Arr [Arr [Num 1, Num 2], Arr [Num 10, Num 20]]))])]"]
  by simp



section \<open>Soft-conditional composer: blending and the body call\<close>

lemma sigmoid_0: "sigmoid 0 = 1 / 2"
  by (simp add: sigmoid_def)

lemma blend_loop_blended:
  "list_all2 (blended_leaf vars gate) items blended \<longleftrightarrow>
     blend_loop vars gate items = Inr (map snd blended) \<and> map fst blended = map fst items"
proof (induction items arbitrary: blended)
  case Nil
  show ?case by auto
next
  case (Cons item rest)
  obtain key val where item: "item = (key, val)" by (cases item)
  show ?case
  proof (cases blended)
    case Nil
    then show ?thesis by (auto simp: item split: sum.splits)
  next
    case (Cons new blended')
    obtain key' val' where new: "new = (key', val')" by (cases new)
    show ?thesis
      unfolding Cons item new
      using Cons.IH [of blended']
      by (cases val; cases "the val")
         (auto split: sum.splits tensor.splits option.splits)
  qed
qed

lemma Pack_blended:
  assumes "map fst blended = map fst theta"
  shows "Pack theta (map snd blended) = blended"
proof -
  have "Pack theta (map snd blended) = zip (map fst blended) (map snd blended)"
    by (simp add: Pack_def FlattenItems_def assms)
  then show ?thesis by (simp add: zip_map_fst_snd)
qed

lemma blend_loop_length:
  "blend_loop vars gate items = Inr vals \<Longrightarrow> length vals = length items"
proof (induction items arbitrary: vals)
  case Nil
  then show ?case by simp
next
  case (Cons item rest)
  obtain key val where item: "item = (key, val)" by (cases item)
  from Cons.prems obtain v vs where "vals = v # vs" "blend_loop vars gate rest = Inr vs"
    by (auto simp: item split: sum.splits)
  with Cons.IH [of vs] show ?case by simp
qed

text \<open>
  Claim C4. Once the gate weights are computed, \<^verbatim>\<open>SoftCondLayer.FProp\<close> is one
  invocation of the body's \<^verbatim>\<open>FProp\<close>, on the inputs and on the parameter tree in
  which every leaf that is a registered variable and not \<^verbatim>\<open>None\<close> is the weighted
  sum of its slices along the expert axis and every other leaf is unchanged: its
  result and its effect on the state are those of that one call. When no such tree exists
  (a variable leaf cannot be blended) the call fails and the body is not invoked.
\<close>

theorem SoftCond_FProp_blends_variables_and_calls_body_once:
  assumes "GetExpertDist p theta inputs args = Inr gate"
  shows "(\<forall>blended. blended_tree body_vars gate (th_body theta) blended \<longrightarrow>
            SoftCondLayer_FProp B body_vars p theta inputs args st
              = B blended (Leaf inputs # args) st)
       \<and> (\<not> (\<exists>blended. blended_tree body_vars gate (th_body theta) blended) \<longrightarrow>
            (\<exists>e. SoftCondLayer_FProp B body_vars p theta inputs args st = (Inl e, st)))"
proof (intro conjI allI impI)
  fix blended
  assume "blended_tree body_vars gate (th_body theta) blended"
  then have b: "blend_loop body_vars gate (th_body theta) = Inr (map snd blended)"
      "map fst blended = map fst (th_body theta)"
    by (simp_all add: blended_tree_def blend_loop_blended)
  show "SoftCondLayer_FProp B body_vars p theta inputs args st = B blended (Leaf inputs # args) st"
    using assms b by (simp add: SoftCondLayer_FProp_def FlattenItems_def Pack_blended)
next
  assume none: "\<not> (\<exists>blended. blended_tree body_vars gate (th_body theta) blended)"
  show "\<exists>e. SoftCondLayer_FProp B body_vars p theta inputs args st = (Inl e, st)"
  proof (cases "blend_loop body_vars gate (th_body theta)")
    case (Inl e)
    with assms show ?thesis by (simp add: SoftCondLayer_FProp_def FlattenItems_def)
  next
    case (Inr vals)
    from blend_loop_length [OF Inr]
    have "blended_tree body_vars gate (th_body theta) (zip (map fst (th_body theta)) vals)"
      using Inr by (simp add: blended_tree_def blend_loop_blended)
    with none show ?thesis by blast
  qed
qed

lemma foldr_rows_length:
  "list_all (\<lambda>x. length x = n) rows \<Longrightarrow>
     length (foldr (\<lambda>(e, row) acc. map2 (+) (map ((*) e) row) acc) (zip emb rows) (replicate n (0::real))) = n"
proof (induction rows arbitrary: emb)
  case Nil
  then show ?case by simp
next
  case (Cons r rows)
  then show ?case by (cases emb) auto
qed

lemma nums_of_length: "nums_of ts = Inr xs \<Longrightarrow> length xs = length ts"
  by (induction ts arbitrary: xs rule: nums_of.induct) (auto split: sum.splits)

lemma einsum_length:
  assumes "tf_einsum_i_ij_j emb w = Inr z" "shape_of w = [i, j]"
  shows "length z = j"
proof -
  from assms obtain ts r rs where w: "w = Arr ts" "rows_of ts = Inr (r # rs)"
      "list_all (\<lambda>x. length x = length r) rs"
      "z = foldr (\<lambda>(e, row) acc. map2 (+) (map ((*) e) row) acc) (zip emb (r # rs)) (replicate (length r) 0)"
    by (auto simp: tf_einsum_i_ij_j_def split: tensor.splits sum.splits list.splits if_splits)
  from w(2) obtain us ts' where ts: "ts = Arr us # ts'" "nums_of us = Inr r"
    by (cases ts rule: rows_of.cases) (auto split: sum.splits)
  from assms(2) w(1) ts have "length us = j" by (auto split: list.splits)
  with ts nums_of_length have "length r = j" by fastforce
  moreover have "length z = length r"
    unfolding w(4) using w(3) by (intro foldr_rows_length) simp
  ultimately show ?thesis by simp
qed

lemma blend_loop_single:
  assumes "\<forall>(key, val)\<in>set items. key \<in> set vars \<longrightarrow> val = None \<or> (\<exists>t. val = Some (Arr [t]))"
  shows "blend_loop vars [g] items = Inr (map snd (gated_copy g vars items))
         \<and> map fst (gated_copy g vars items) = map fst items"
  using assms
proof (induction items)
  case Nil
  show ?case by simp
next
  case (Cons item rest)
  obtain key val where item: "item = (key, val)" by (cases item)
  from Cons.prems have rest: "\<forall>(key, val)\<in>set rest. key \<in> set vars \<longrightarrow> val = None \<or> (\<exists>t. val = Some (Arr [t]))"
    by simp
  from Cons.prems item have here: "key \<in> set vars \<longrightarrow> val = None \<or> (\<exists>t. val = Some (Arr [t]))"
    by simp
  show ?case
    using Cons.IH [OF rest] here unfolding item
    by (auto split: option.splits tensor.splits list.splits)
qed

lemma scale_1: "scale 1 t = t"
  by (induction t) (auto simp: map_idI)

lemma gated_copy_1: "gated_copy 1 vars theta = single_copy vars theta"
  by (induction theta) (auto simp: scale_1 split: option.splits tensor.splits list.splits)


theorem SoftCond_FProp_blends_variables_and_calls_body_once_witness:
  "GetExpertDist
      \<lparr>sc_name = ''sc'', sc_body = Bias_p ''bias'' 1, sc_num_experts = 2, sc_cond_dim = 1, sc_is_eval = True\<rparr>
      \<lparr>th_w = Arr [Arr [Num 0, Num 0]],
        th_body = [(''b'', Some (Arr [Arr [Num 2], Arr [Num 4]])), (''global_step'', Some (Num 7)), (''aux'', None)]\<rparr>
      (Arr [Arr [Num 1]]) [] = Inr [1 / 2, 1 / 2]
   \<and> blended_tree [''b''] [1 / 2, 1 / 2]
        [(''b'', Some (Arr [Arr [Num 2], Arr [Num 4]])), (''global_step'', Some (Num 7)), (''aux'', None)]
        [(''b'', Some (Arr [Num 3])), (''global_step'', Some (Num 7)), (''aux'', None)]
   \<and> SoftCondLayer_FProp (counting BiasLayer_FProp) [''b'']
      \<lparr>sc_name = ''sc'', sc_body = Bias_p ''bias'' 1, sc_num_experts = 2, sc_cond_dim = 1, sc_is_eval = True\<rparr>
      \<lparr>th_w = Arr [Arr [Num 0, Num 0]],
        th_body = [(''b'', Some (Arr [Arr [Num 2], Arr [Num 4]])), (''global_step'', Some (Num 7)), (''aux'', None)]\<rparr>
      (Arr [Arr [Num 1]]) [] 0
     = (Inr (Leaf (Arr [Arr [Num 4]])), 1)"
proof -
  let ?p = "\<lparr>sc_name = ''sc'', sc_body = Bias_p ''bias'' 1, sc_num_experts = 2, sc_cond_dim = 1, sc_is_eval = True\<rparr>"
  let ?body = "[(''b'', Some (Arr [Arr [Num 2], Arr [Num 4]])), (''global_step'', Some (Num 7)), (''aux'', None)]"
  let ?theta = "\<lparr>th_w = Arr [Arr [Num 0, Num 0]], th_body = ?body\<rparr>"
  let ?blended = "[(''b'', Some (Arr [Num 3])), (''global_step'', Some (Num 7)), (''aux'', None)]"
  have gate: "GetExpertDist ?p ?theta (Arr [Arr [Num 1]]) [] = Inr [1 / 2, 1 / 2]"
    by (simp add: GetExpertDist_def tf_reshape_rows_def tf_reduce_sum_rows_def
        tf_einsum_i_ij_j_def sigmoid_0)
  have tree: "blended_tree [''b''] [1 / 2, 1 / 2] ?body ?blended"
    by (simp add: blended_tree_def)
  have call: "counting BiasLayer_FProp ?blended [Leaf (Arr [Arr [Num 1]])] 0
                = (Inr (Leaf (Arr [Arr [Num 4]])), 1)"
    by (simp add: counting_def BiasLayer_FProp_def)
  from SoftCond_FProp_blends_variables_and_calls_body_once
         [OF gate, of "[''b'']" "counting BiasLayer_FProp" 0] tree
  have "SoftCondLayer_FProp (counting BiasLayer_FProp) [''b''] ?p ?theta (Arr [Arr [Num 1]]) [] 0
          = counting BiasLayer_FProp ?blended [Leaf (Arr [Arr [Num 1]])] 0"
    by simp
  with gate tree call show ?thesis by simp
qed

text \<open>
  Claim C6, as stated: with one expert, a \<open>1 \<times> 1\<close> mixing matrix \<open>0\<close> and the stacked
  bias \<open>[[2]]\<close>, the gate weight is \<open>sigmoid 0 = 1/2\<close>; \<^verbatim>\<open>SoftCond\<close> around
  \<^verbatim>\<open>BiasLayer\<close> returns \<open>[[1]] + 1/2 * [2] = [[2]]\<close>, the direct call with the single
  copy \<open>[2]\<close> returns \<open>[[3]]\<close>.
\<close>

theorem SoftCond_one_expert_differs_from_direct_call:
  "SoftCondLayer_FProp (stateless BiasLayer_FProp) [''b'']
      \<lparr>sc_name = ''sc'', sc_body = Bias_p ''bias'' 1, sc_num_experts = 1, sc_cond_dim = 1, sc_is_eval = True\<rparr>
      \<lparr>th_w = Arr [Arr [Num 0]], th_body = [(''b'', Some (Arr [Arr [Num 2]]))]\<rparr>
      (Arr [Arr [Num 1]]) [] ()
     = (Inr (Leaf (Arr [Arr [Num 2]])), ())
   \<and> stateless BiasLayer_FProp (single_copy [''b''] [(''b'', Some (Arr [Arr [Num 2]]))])
        [Leaf (Arr [Arr [Num 1]])] ()
     = (Inr (Leaf (Arr [Arr [Num 3]])), ())"
proof -
  have gate: "GetExpertDist
      \<lparr>sc_name = ''sc'', sc_body = Bias_p ''bias'' 1, sc_num_experts = 1, sc_cond_dim = 1, sc_is_eval = True\<rparr>
      \<lparr>th_w = Arr [Arr [Num 0]], th_body = [(''b'', Some (Arr [Arr [Num 2]]))]\<rparr>
      (Arr [Arr [Num 1]]) [] = Inr [1 / 2]"
    by (simp add: GetExpertDist_def tf_reshape_rows_def tf_reduce_sum_rows_def
        tf_einsum_i_ij_j_def sigmoid_0)
  show ?thesis
    by (simp add: SoftCondLayer_FProp_def gate FlattenItems_def Pack_def stateless_def
        BiasLayer_FProp_def)
qed

text \<open>
  Claim C6, amended: with \<open>num_experts = 1\<close> (a mixing matrix of shape
  \<open>[cond_dim, 1]\<close>, every variable leaf stacked once) the gate is one weight \<open>g\<close>, and
  \<^verbatim>\<open>SoftCondLayer.FProp\<close> is one call of the body on its single parameter copy with
  every variable leaf multiplied by \<open>g\<close>; when \<open>g = 1\<close> it is the call of the body on
  the single copy itself.
\<close>

theorem SoftCond_one_expert_scales_by_gate:
  assumes one: "sc_num_experts p = 1"
    and w: "shape_of (th_w theta) = [nat (sc_cond_dim p), nat (sc_num_experts p)]"
    and stacked: "\<forall>(key, val)\<in>set (th_body theta). key \<in> set body_vars \<longrightarrow>
                    val = None \<or> (\<exists>ts. val = Some (Arr ts) \<and> length ts = nat (sc_num_experts p))"
    and gate: "GetExpertDist p theta inputs args = Inr gate"
  shows "\<exists>g. gate = [g]
           \<and> SoftCondLayer_FProp B body_vars p theta inputs args st
               = B (gated_copy g body_vars (th_body theta)) (Leaf inputs # args) st
           \<and> (g = 1 \<longrightarrow>
                SoftCondLayer_FProp B body_vars p theta inputs args st
                  = B (single_copy body_vars (th_body theta)) (Leaf inputs # args) st)"
proof -
  from gate obtain z where z: "tf_einsum_i_ij_j
        (tf_reduce_sum_rows (nat (sc_cond_dim p)) (projr (tf_reshape_rows inputs (sc_cond_dim p))))
        (th_w theta) = Inr z" "gate = map sigmoid z"
    by (auto simp: GetExpertDist_def split: sum.splits)
  from einsum_length [OF z(1) w] one have "length z = 1" by simp
  then obtain x where "z = [x]" by (cases z) auto
  with z have g: "gate = [sigmoid x]" by simp
  have single: "\<forall>(key, val)\<in>set (th_body theta). key \<in> set body_vars \<longrightarrow>
                    val = None \<or> (\<exists>t. val = Some (Arr [t]))"
  proof (intro ballI, clarify)
    fix key val
    assume "(key, val) \<in> set (th_body theta)" "key \<in> set body_vars" "\<not> (\<exists>t. val = Some (Arr [t]))"
    with stacked one obtain ts where "val = None \<or> val = Some (Arr ts) \<and> length ts = 1"
      by fastforce
    moreover have "length ts = 1 \<Longrightarrow> \<exists>t. ts = [t]" by (cases ts) auto
    ultimately show "val = None"
      using \<open>\<not> (\<exists>t. val = Some (Arr [t]))\<close> by auto
  qed
  from blend_loop_single [OF single, of "sigmoid x"]
  have b: "blend_loop body_vars [sigmoid x] (th_body theta)
             = Inr (map snd (gated_copy (sigmoid x) body_vars (th_body theta)))"
      "map fst (gated_copy (sigmoid x) body_vars (th_body theta)) = map fst (th_body theta)"
    by simp_all
  have call: "SoftCondLayer_FProp B body_vars p theta inputs args st
          = B (gated_copy (sigmoid x) body_vars (th_body theta)) (Leaf inputs # args) st"
    using gate g b by (simp add: SoftCondLayer_FProp_def FlattenItems_def Pack_blended)
  have "sigmoid x = 1 \<longrightarrow>
          SoftCondLayer_FProp B body_vars p theta inputs args st
            = B (single_copy body_vars (th_body theta)) (Leaf inputs # args) st"
    using call gated_copy_1 [of body_vars "th_body theta"] by simp
  with g call show ?thesis by blast
qed

theorem SoftCond_one_expert_scales_by_gate_witness:
  "\<exists>g. [1 / 2] = [g]
     \<and> SoftCondLayer_FProp (stateless BiasLayer_FProp) [''b'']
          \<lparr>sc_name = ''sc'', sc_body = Bias_p ''bias'' 1, sc_num_experts = 1, sc_cond_dim = 1, sc_is_eval = True\<rparr>
          \<lparr>th_w = Arr [Arr [Num 0]], th_body = [(''b'', Some (Arr [Arr [Num 2]]))]\<rparr>
          (Arr [Arr [Num 1]]) [] ()
        = stateless BiasLayer_FProp (gated_copy g [''b''] [(''b'', Some (Arr [Arr [Num 2]]))])
            [Leaf (Arr [Arr [Num 1]])] ()"
proof -
  let ?p = "\<lparr>sc_name = ''sc'', sc_body = Bias_p ''bias'' 1, sc_num_experts = 1, sc_cond_dim = 1, sc_is_eval = True\<rparr>"
  let ?theta = "\<lparr>th_w = Arr [Arr [Num 0]], th_body = [(''b'', Some (Arr [Arr [Num 2]]))]\<rparr>"
  have one: "sc_num_experts ?p = 1" by simp
  have w: "shape_of (th_w ?theta) = [nat (sc_cond_dim ?p), nat (sc_num_experts ?p)]" by simp
  have stacked: "\<forall>(key, val)\<in>set (th_body ?theta). key \<in> set [''b''] \<longrightarrow>
                    val = None \<or> (\<exists>ts. val = Some (Arr ts) \<and> length ts = nat (sc_num_experts ?p))"
    by simp
  have gate: "GetExpertDist ?p ?theta (Arr [Arr [Num 1]]) [] = Inr [1 / 2]"
    by (simp add: GetExpertDist_def tf_reshape_rows_def tf_reduce_sum_rows_def
        tf_einsum_i_ij_j_def sigmoid_0)
  from SoftCond_one_expert_scales_by_gate [OF one w stacked gate, of "stateless BiasLayer_FProp" "()"]
  obtain g where "[1 / 2] = [g]"
    "SoftCondLayer_FProp (stateless BiasLayer_FProp) [''b''] ?p ?theta (Arr [Arr [Num 1]]) [] ()
       = stateless BiasLayer_FProp (gated_copy g [''b''] (th_body ?theta)) [Leaf (Arr [Arr [Num 1]])] ()"
    by blast
  then show ?thesis by auto
qed

section \<open>Graph composer: the named-tensor namespace\<close>





























lemmas string_eval = py_split_def strip_def is_space_def id_regex_match_def is_id_start_def
  is_id_char_def path_names_def ParseSignature_def



lemma names_eval:
  "written_names [''x''] [''x->h'', ''h->y.out''] = [[''x''], [''h''], [''y'', ''out'']]"
  by (simp add: written_names_def sig_outputs_def string_eval)




section \<open>Graph composer: when signatures are checked\<close>














end
